theory Spec2Isabelle
  imports Main "HOL-Library.Sublist"
begin

section \<open>Python values and string primitives\<close>

text \<open>
  The pipeline passes untyped data around: raw UI fields, YAML layout templates and
  colour dictionaries. A value is one of Python's scalars or containers. A dictionary is
  an association list in insertion order (the keys of the dictionaries modelled here are
  strings); floats, dates and other scalars behave like \<open>PInt\<close> in every function
  below, which only ask whether a value is a string, a list or a dictionary.

  A \<open>string\<close> is a list of characters, one \<open>char\<close> per Python code point (code
  points below 256), so \<open>length\<close> is Python's \<open>len\<close>.
\<close>

datatype pyval =
    PNone
  | PBool bool
  | PInt int
  | PStr string
  | PList "pyval list"
  | PDict "(string \<times> pyval) list"

datatype error =
    AttributeError
  | TypeError
  | IndexError
  | ValueError
  | Exception string

text \<open>\<open>bool(v)\<close>: what \<open>if v\<close> and \<open>not v\<close> test.\<close>

fun truthy :: "pyval \<Rightarrow> bool" where
  "truthy PNone = False"
| "truthy (PBool b) = b"
| "truthy (PInt i) = (i \<noteq> 0)"
| "truthy (PStr s) = (s \<noteq> [])"
| "truthy (PList xs) = (xs \<noteq> [])"
| "truthy (PDict kvs) = (kvs \<noteq> [])"

text \<open>\<open>d.get(key, default)\<close> on a dictionary held as an association list.\<close>

definition dict_get :: "(string \<times> 'v) list \<Rightarrow> string \<Rightarrow> 'v \<Rightarrow> 'v" where
  "dict_get d key default_value = (case map_of d key of None \<Rightarrow> default_value | Some v \<Rightarrow> v)"

text \<open>\<open>str.isspace\<close> on one character, for the code points below 256.\<close>

definition is_space :: "char \<Rightarrow> bool" where
  "is_space c =
     (let n = (of_char c :: nat)
      in (9 \<le> n \<and> n \<le> 13) \<or> (28 \<le> n \<and> n \<le> 32) \<or> n = 133 \<or> n = 160)"

text \<open>\<open>s.strip()\<close>: leading and trailing whitespace removed.\<close>

definition strip :: "string \<Rightarrow> string" where
  "strip s = rev (dropWhile is_space (rev (dropWhile is_space s)))"

text \<open>
  The slice \<open>s[:k]\<close> of a string or a list: the first \<open>k\<close> elements, and for a
  negative \<open>k\<close> all but the last \<open>-k\<close>.
\<close>

definition slice_to :: "'a list \<Rightarrow> int \<Rightarrow> 'a list" where
  "slice_to s k = (if 0 \<le> k then take (nat k) s else take (nat (int (length s) + k)) s)"

text \<open>\<open>old in s\<close> on strings is \<^const>\<open>sublist\<close>: a contiguous occurrence.\<close>

section \<open>InputProcessor\<close>

text \<open>
  \<open>InputProcessor._normalize_text(text, max_length)\<close>. Anything that is not a
  non-empty string gives the empty string; the string is stripped, and cut to
  \<open>max_length - 3\<close> characters plus an ellipsis when it is longer than \<open>max_length\<close>.
\<close>

definition normalize_text :: "pyval \<Rightarrow> int \<Rightarrow> string" where
  "normalize_text text max_length =
     (case text of
        PStr s \<Rightarrow>
          if s = [] then []
          else
            let t = strip s
            in if int (length t) > max_length then slice_to t (max_length - 3) @ ''...'' else t
      | _ \<Rightarrow> [])"

text \<open>
  \<open>InputProcessor._normalize_benefits(benefits, max_items, max_length_per_item)\<close>:
  the first \<open>max_items\<close> entries, the strings among them normalised, the empty results
  dropped.
\<close>

definition normalize_benefit :: "int \<Rightarrow> pyval \<Rightarrow> string list" where
  "normalize_benefit max_length_per_item benefit =
     (case benefit of
        PStr b \<Rightarrow>
          if b = [] then []
          else
            let normalized_benefit = normalize_text (PStr (strip b)) max_length_per_item
            in if normalized_benefit \<noteq> [] then [normalized_benefit] else []
      | _ \<Rightarrow> [])"

definition normalize_benefits :: "pyval \<Rightarrow> int \<Rightarrow> int \<Rightarrow> string list" where
  "normalize_benefits benefits max_items max_length_per_item =
     (case benefits of
        PList bs \<Rightarrow> concat (map (normalize_benefit max_length_per_item) (slice_to bs max_items))
      | _ \<Rightarrow> [])"

text \<open>
  \<open>InputProcessor._extract_ci_colors(colors)\<close>: one entry per key of the hard-coded
  defaults, in their order; the caller's colour when it passes the basic hex check,
  the default otherwise.
\<close>

definition default_colors :: "(string \<times> string) list" where
  "default_colors =
     [(''primary'', ''#005EA5''),
      (''secondary'', ''#B4D9F7''),
      (''accent'', ''#FFC20E''),
      (''background'', ''#FFFFFF''),
      (''text'', ''#000000'')]"

definition startswith :: "string \<Rightarrow> string \<Rightarrow> bool" where
  "startswith s p = prefix p s"

definition valid_color :: "pyval \<Rightarrow> bool" where
  "valid_color color =
     (case color of
        PStr c \<Rightarrow> startswith c ''#'' \<and> (length c = 4 \<or> length c = 7)
      | _ \<Rightarrow> False)"

definition ci_color_entry :: "(string \<times> pyval) list \<Rightarrow> string \<times> string \<Rightarrow> string \<times> string" where
  "ci_color_entry colors entry =
     (let key = fst entry; default_value = snd entry;
          color = dict_get colors key (PStr default_value)
      in case color of
           PStr c \<Rightarrow> if valid_color color then (key, c) else (key, default_value)
         | _ \<Rightarrow> (key, default_value))"

definition extract_ci_colors :: "(string \<times> pyval) list \<Rightarrow> (string \<times> string) list" where
  "extract_ci_colors colors = map (ci_color_entry colors) default_colors"

text \<open>
  \<open>InputProcessor._extract_ci_colors_from_streamlit(streamlit_input)\<close>: the structured
  palette when it is a dictionary, else the single colour fields that are present and not
  \<open>None\<close>, else the legacy \<open>corporate_colors\<close>, else the defaults. A
  \<open>corporate_colors\<close> value that is truthy and not a dictionary has no \<open>get\<close>:
  the call raises.
\<close>

definition single_color_fields :: "(string \<times> string) list" where
  "single_color_fields =
     [(''primary'', ''primary_color''),
      (''secondary'', ''secondary_color''),
      (''accent'', ''accent_color''),
      (''background'', ''background_color''),
      (''text'', ''text_color'')]"

definition colors_mapping :: "(string \<times> pyval) list \<Rightarrow> (string \<times> pyval) list" where
  "colors_mapping streamlit_input =
     filter (\<lambda>kv. snd kv \<noteq> PNone)
       (map (\<lambda>kf. (fst kf, dict_get streamlit_input (snd kf) PNone)) single_color_fields)"

definition extract_ci_colors_from_streamlit ::
  "(string \<times> pyval) list \<Rightarrow> error + (string \<times> string) list" where
  "extract_ci_colors_from_streamlit streamlit_input =
     (case map_of streamlit_input ''ci_colors_palette'' of
        Some (PDict palette) \<Rightarrow> Inr (extract_ci_colors palette)
      | _ \<Rightarrow>
          if colors_mapping streamlit_input \<noteq> [] then
            Inr (extract_ci_colors (colors_mapping streamlit_input))
          else
            (case dict_get streamlit_input ''corporate_colors'' (PDict []) of
               PDict corporate_colors \<Rightarrow> Inr (extract_ci_colors corporate_colors)
             | other \<Rightarrow> if truthy other then Inl AttributeError else Inr (extract_ci_colors [])))"

text \<open>
  \<open>StructuredInput\<close>, and \<open>InputProcessor.process\<close> that builds it. The text fields are
  normalised with their length caps; the style fields are taken as they come. The
  timestamp is read from the clock and is a parameter here. An uploaded image or logo is
  a UI object; as a \<open>pyval\<close> it has no \<open>name\<close> attribute, so the image name, when
  there is an image, is the fallback of the \<open>getattr\<close>. The default of
  \<open>motiv_source\<close> is written without its leading pictograph, which lies outside the
  character range.
\<close>

record structured_input =
  headline :: string
  subline :: string
  company :: string
  location :: string
  stellentitel :: string
  position_long :: string
  benefits :: "string list"
  cta :: string
  motiv_prompt :: string
  visual_style :: pyval
  lighting_type :: pyval
  lighting_mood :: pyval
  framing :: pyval
  motiv_source :: pyval
  layout_id :: pyval
  ci_colors :: "(string \<times> string) list"
  timestamp :: string
  logo_file :: pyval
  logo_placeholder :: string
  style_options :: pyval
  processing_stage :: string
  uploaded_image :: pyval
  uploaded_image_name :: "string option"

definition process_input :: "string \<Rightarrow> (string \<times> pyval) list \<Rightarrow> error + structured_input" where
  "process_input now streamlit_input =
     (case extract_ci_colors_from_streamlit streamlit_input of
        Inl e \<Rightarrow> Inl e
      | Inr colors \<Rightarrow>
          Inr \<lparr> headline = normalize_text (dict_get streamlit_input ''headline'' (PStr [])) 50,
                subline = normalize_text (dict_get streamlit_input ''subline'' (PStr [])) 60,
                company = normalize_text (dict_get streamlit_input ''company'' (PStr [])) 30,
                location = normalize_text (dict_get streamlit_input ''location'' (PStr [])) 25,
                stellentitel = normalize_text (dict_get streamlit_input ''stellentitel'' (PStr [])) 50,
                position_long = normalize_text (dict_get streamlit_input ''position_long'' (PStr [])) 40,
                benefits = normalize_benefits (dict_get streamlit_input ''benefits'' (PList [])) 5 35,
                cta = normalize_text (dict_get streamlit_input ''cta'' (PStr ''Jetzt bewerben!'')) 25,
                motiv_prompt = normalize_text (dict_get streamlit_input ''motiv_prompt'' (PStr [])) 200,
                visual_style =
                  dict_get streamlit_input ''visual_style'' (PStr ''professional, realistic photography''),
                lighting_type = dict_get streamlit_input ''lighting_type'' (PStr ''natural, soft lighting''),
                lighting_mood =
                  dict_get streamlit_input ''lighting_mood'' (PStr ''warm, welcoming, professional''),
                framing = dict_get streamlit_input ''framing'' (PStr ''medium shot, waist up''),
                motiv_source = dict_get streamlit_input ''motiv_source'' (PStr ''Text-Beschreibung''),
                layout_id = dict_get streamlit_input ''layout_id'' (PStr ''skizze1_vertical_split''),
                ci_colors = colors,
                timestamp = now,
                logo_file = dict_get streamlit_input ''logo_file'' PNone,
                logo_placeholder =
                  normalize_text (dict_get streamlit_input ''logo_placeholder'' (PStr ''[FIRMENLOGO]'')) 30,
                style_options = dict_get streamlit_input ''style_options'' (PDict []),
                processing_stage = ''input_processed'',
                uploaded_image = dict_get streamlit_input ''uploaded_image'' PNone,
                uploaded_image_name =
                  (if dict_get streamlit_input ''uploaded_image'' PNone \<noteq> PNone
                   then Some ''uploaded_image.jpg'' else None) \<rparr>)"

section \<open>More string primitives\<close>

text \<open>
  \<open>s.replace(old, new)\<close>: every occurrence of \<open>old\<close>, found from the left and not
  overlapping, is replaced. With an empty \<open>old\<close> Python puts \<open>new\<close> before every
  character and at the end.
\<close>

fun replace_from :: "string \<Rightarrow> string \<Rightarrow> string \<Rightarrow> string" where
  "replace_from old new [] = []"
| "replace_from old new (c # cs) =
     (if prefix old (c # cs) \<and> old \<noteq> []
      then new @ replace_from old new (drop (length old - 1) cs)
      else c # replace_from old new cs)"

definition replace :: "string \<Rightarrow> string \<Rightarrow> string \<Rightarrow> string" where
  "replace s old new =
     (if old = [] then new @ concat (map (\<lambda>c. c # new) s) else replace_from old new s)"

text \<open>
  \<open>s.split(sep)\<close> for a non-empty separator: the pieces between the occurrences of
  \<open>sep\<close>, found from the left; always at least one piece. (Python raises on an empty
  separator; the only separator used is a literal.)
\<close>

fun split_from :: "string \<Rightarrow> string \<Rightarrow> string \<Rightarrow> string list" where
  "split_from sep piece [] = [rev piece]"
| "split_from sep piece (c # cs) =
     (if prefix sep (c # cs) \<and> sep \<noteq> []
      then rev piece # split_from sep [] (drop (length sep - 1) cs)
      else split_from sep (c # piece) cs)"

definition split :: "string \<Rightarrow> string \<Rightarrow> string list" where
  "split s sep = split_from sep [] s"

text \<open>
  \<open>int(s)\<close> on a string: surrounding whitespace is dropped, then an optional sign and
  decimal digits, where single underscores may stand between digits. Anything else is a
  \<open>ValueError\<close>. The whitespace \<open>int\<close> drops is narrower than that of
  \<open>strip\<close>: the separators U+001C to U+001F are not part of it. A literal of more than
  4300 digits is refused as well (the default limit of the interpreter).
\<close>

definition is_int_space :: "char \<Rightarrow> bool" where
  "is_int_space c =
     (let n = (of_char c :: nat)
      in (9 \<le> n \<and> n \<le> 13) \<or> n = 32 \<or> n = 133 \<or> n = 160)"

definition int_strip :: "string \<Rightarrow> string" where
  "int_strip s = rev (dropWhile is_int_space (rev (dropWhile is_int_space s)))"

definition is_digit :: "char \<Rightarrow> bool" where
  "is_digit c = (let n = (of_char c :: nat) in 48 \<le> n \<and> n \<le> 57)"

definition digit_value :: "char \<Rightarrow> int" where
  "digit_value c = int (of_char c) - 48"

fun int_digits :: "int \<Rightarrow> string \<Rightarrow> int option" where
  "int_digits acc [] = Some acc"
| "int_digits acc [c] = (if is_digit c then Some (10 * acc + digit_value c) else None)"
| "int_digits acc (c # d # ds) =
     (if is_digit c then int_digits (10 * acc + digit_value c) (d # ds)
      else if c = CHR ''_'' \<and> is_digit d then int_digits (10 * acc + digit_value d) ds
      else None)"

definition int_unsigned :: "string \<Rightarrow> int option" where
  "int_unsigned s =
     (case s of
        [] \<Rightarrow> None
      | c # cs \<Rightarrow> if is_digit c then int_digits (digit_value c) cs else None)"

definition py_int :: "string \<Rightarrow> error + int" where
  "py_int s =
     (let body = int_strip s;
          parsed =
            (case body of
               [] \<Rightarrow> None
             | c # cs \<Rightarrow>
                 if c = CHR ''-'' then map_option uminus (int_unsigned cs)
                 else if c = CHR ''+'' then int_unsigned cs
                 else int_unsigned body)
      in if length (filter is_digit body) > 4300 then Inl ValueError
         else case parsed of None \<Rightarrow> Inl ValueError | Some n \<Rightarrow> Inr n)"

text \<open>\<open>str(n)\<close> of an integer, as an f-string renders it.\<close>

fun str_of_nat :: "nat \<Rightarrow> string" where
  "str_of_nat n =
     (if n < 10 then [char_of (48 + n)] else str_of_nat (n div 10) @ [char_of (48 + n mod 10)])"

definition str_of_int :: "int \<Rightarrow> string" where
  "str_of_int i = (if i < 0 then CHR ''-'' # str_of_nat (nat (- i)) else str_of_nat (nat i))"

section \<open>LayoutIntegrator\<close>

subsection \<open>Banner colours and CI colour placeholders\<close>

text \<open>
  \<open>LayoutIntegrator._convert_banner_colors_to_generic\<close>. Its inner \<open>convert_colors\<close>
  walks a deep copy of the layout definition. Under the key \<open>background_color\<close> a
  string that names a placeholder becomes a whole generic description (the first of
  secondary, primary, accent that occurs); any other string is rewritten only when it
  contains the text \<open>background_color\<close>.
\<close>

definition convert_str :: "string \<Rightarrow> string" where
  "convert_str obj =
     (if sublist ''background_color'' obj
      then replace (replace (replace obj
             ''{secondary_color}'' ''professional dark background'')
             ''{primary_color}'' ''professional light background'')
             ''{accent_color}'' ''highlighted accent area''
      else obj)"

definition convert_background :: "string \<Rightarrow> string" where
  "convert_background v =
     (if sublist ''{secondary_color}'' v then ''professional dark background''
      else if sublist ''{primary_color}'' v then ''professional light background''
      else if sublist ''{accent_color}'' v then ''highlighted accent area''
      else convert_str v)"

fun convert_colors :: "pyval \<Rightarrow> pyval" where
  "convert_colors (PDict kvs) =
     PDict (map (\<lambda>kv. (fst kv,
                  case snd kv of
                    PStr v \<Rightarrow>
                      if fst kv = ''background_color'' then PStr (convert_background v)
                      else convert_colors (snd kv)
                  | _ \<Rightarrow> convert_colors (snd kv))) kvs)"
| "convert_colors (PList xs) = PList (map convert_colors xs)"
| "convert_colors (PStr obj) = PStr (convert_str obj)"
| "convert_colors obj = obj"

definition convert_banner_colors_to_generic :: "(string \<times> pyval) list \<Rightarrow> pyval" where
  "convert_banner_colors_to_generic layout_def = convert_colors (PDict layout_def)"

text \<open>
  \<open>LayoutIntegrator._resolve_layout_colors(layout_def, ci_colors)\<close>. The four colours are
  read from \<open>ci_colors\<close> with their defaults; \<open>color_mapping\<close> sends hard-coded
  standard colours to CI colours, in the order of the source.
\<close>

record ci_palette =
  primary :: string
  secondary :: string
  accent :: string
  background :: string

definition palette_of :: "(string \<times> string) list \<Rightarrow> ci_palette" where
  "palette_of colors =
     \<lparr> primary = dict_get colors ''primary'' ''#005EA5'',
       secondary = dict_get colors ''secondary'' ''#B4D9F7'',
       accent = dict_get colors ''accent'' ''#FFC20E'',
       background = dict_get colors ''background'' ''#FFFFFF'' \<rparr>"

definition color_mapping :: "ci_palette \<Rightarrow> (string \<times> string) list" where
  "color_mapping p =
     [(''#000000'', primary p),
      (''#333333'', primary p),
      (''#777777'', secondary p),
      (''#666666'', secondary p),
      (''#00B5E2'', primary p),
      (''#0088CC'', primary p),
      (''#FFC20E'', accent p),
      (''#FFB300'', accent p),
      (''#EEEEEE'', secondary p),
      (''#F5F5F5'', secondary p)]"

text \<open>
  One guarded replacement, \<open>if old in obj: obj = obj.replace(old, new)\<close>, and the string
  branch of \<open>replace_colors\<close>: the four placeholders in turn, then every entry of
  \<open>color_mapping\<close> in turn.
\<close>

definition replace_if_in :: "string \<Rightarrow> string \<Rightarrow> string \<Rightarrow> string" where
  "replace_if_in old new obj = (if sublist old obj then replace obj old new else obj)"

definition replace_str :: "ci_palette \<Rightarrow> string \<Rightarrow> string" where
  "replace_str p obj =
     foldl (\<lambda>obj on. replace_if_in (fst on) (snd on) obj)
       (replace_if_in ''{background_color}'' (background p)
         (replace_if_in ''{accent_color}'' (accent p)
           (replace_if_in ''{secondary_color}'' (secondary p)
             (replace_if_in ''{primary_color}'' (primary p) obj))))
       (color_mapping p)"

text \<open>
  The dictionary branch under the key \<open>background_color\<close>: only the first placeholder
  that occurs is replaced; with none, each matching hard-coded colour overwrites the
  entry with a replacement made on the original value, so the last match stays. The
  entry then goes through the string branch.
\<close>

definition resolve_background :: "ci_palette \<Rightarrow> string \<Rightarrow> string" where
  "resolve_background p v =
     replace_str p
       (if sublist ''{primary_color}'' v then replace v ''{primary_color}'' (primary p)
        else if sublist ''{secondary_color}'' v then replace v ''{secondary_color}'' (secondary p)
        else if sublist ''{accent_color}'' v then replace v ''{accent_color}'' (accent p)
        else if sublist ''{background_color}'' v then replace v ''{background_color}'' (background p)
        else foldl (\<lambda>entry on. if sublist (fst on) v then replace v (fst on) (snd on) else entry)
               v (color_mapping p))"

fun replace_colors :: "ci_palette \<Rightarrow> pyval \<Rightarrow> pyval" where
  "replace_colors p (PDict kvs) =
     PDict (map (\<lambda>kv. (fst kv,
                  case snd kv of
                    PStr v \<Rightarrow>
                      if fst kv = ''background_color'' then PStr (resolve_background p v)
                      else replace_colors p (snd kv)
                  | _ \<Rightarrow> replace_colors p (snd kv))) kvs)"
| "replace_colors p (PList xs) = PList (map (replace_colors p) xs)"
| "replace_colors p (PStr obj) = PStr (replace_str p obj)"
| "replace_colors p obj = obj"

definition resolve_layout_colors :: "pyval \<Rightarrow> (string \<times> string) list \<Rightarrow> pyval" where
  "resolve_layout_colors layout_def colors = replace_colors (palette_of colors) layout_def"

text \<open>
  What the claim on placeholders speaks about: the four placeholder texts, and a nested
  value none of whose strings (as a dictionary value, a list element or the value itself)
  contains one.
\<close>

definition has_placeholder :: "string \<Rightarrow> bool" where
  "has_placeholder s =
     (sublist ''{primary_color}'' s \<or> sublist ''{secondary_color}'' s \<or>
      sublist ''{accent_color}'' s \<or> sublist ''{background_color}'' s)"

fun placeholder_free :: "pyval \<Rightarrow> bool" where
  "placeholder_free (PStr s) = (\<not> has_placeholder s)"
| "placeholder_free (PList xs) = list_all placeholder_free xs"
| "placeholder_free (PDict kvs) = list_all (\<lambda>kv. placeholder_free (snd kv)) kvs"
| "placeholder_free obj = True"

subsection \<open>Adaptive rules\<close>

text \<open>
  An entry of the adjustments list, and \<open>LayoutIntegratedData\<close>.
\<close>

record adjustment =
  adj_rule :: string
  adj_trigger :: string
  adj_action :: pyval
  adj_applied :: bool

record layout_integrated_data =
  lid_structured_input :: structured_input
  layout_definition :: "(string \<times> pyval) list"
  text_placements :: "(string \<times> (string \<times> pyval) list) list"
  motiv_treatment :: "(string \<times> pyval) list"
  applied_typography :: "(string \<times> pyval) list"
  adaptive_adjustments :: "adjustment list"
  layout_metrics :: "(string \<times> pyval) list"
  lid_processing_stage :: string

text \<open>
  \<open>key in container\<close> and \<open>container[key]\<close> for a string key, as Python evaluates
  them on whatever the YAML holds under \<open>adaptive_rules\<close>: a dictionary is looked up,
  a string or list supports \<open>in\<close> but not the subscript, any other value supports
  neither.
\<close>

definition py_contains :: "pyval \<Rightarrow> string \<Rightarrow> error + bool" where
  "py_contains container key =
     (case container of
        PDict d \<Rightarrow> Inr (map_of d key \<noteq> None)
      | PStr s \<Rightarrow> Inr (sublist key s)
      | PList xs \<Rightarrow> Inr (PStr key \<in> set xs)
      | _ \<Rightarrow> Inl TypeError)"

definition py_subscript :: "pyval \<Rightarrow> string \<Rightarrow> error + pyval" where
  "py_subscript container key =
     (case container of
        PDict d \<Rightarrow> (case map_of d key of Some v \<Rightarrow> Inr v | None \<Rightarrow> Inl (Exception ''KeyError''))
      | _ \<Rightarrow> Inl TypeError)"

text \<open>
  \<open>int(rule.get('trigger', default).split('> ')[1])\<close>: the rule must be a dictionary and
  its trigger a string (else there is no \<open>get\<close> or \<open>split\<close>), the split must give a
  second piece, and that piece must parse as an integer.
\<close>

definition parse_trigger :: "pyval \<Rightarrow> string \<Rightarrow> error + int" where
  "parse_trigger rule default_trigger =
     (case rule of
        PDict r \<Rightarrow>
          (case dict_get r ''trigger'' (PStr default_trigger) of
             PStr t \<Rightarrow>
               (case split t ''> '' of
                  first # second # pieces \<Rightarrow> py_int second
                | _ \<Rightarrow> Inl IndexError)
           | _ \<Rightarrow> Inl AttributeError)
      | _ \<Rightarrow> Inl AttributeError)"

definition rule_action :: "pyval \<Rightarrow> string \<Rightarrow> pyval" where
  "rule_action rule default_action =
     (case rule of PDict r \<Rightarrow> dict_get r ''action'' (PStr default_action) | _ \<Rightarrow> PNone)"

text \<open>
  The two blocks of \<open>LayoutIntegrator._apply_adaptive_rules\<close>: each contributes its
  adjustment, nothing, or the exception that ends the call. (\<open>rule_action\<close> is only
  reached after the trigger was read from the rule, which is then a dictionary.)
\<close>

definition long_headline_check :: "pyval \<Rightarrow> structured_input \<Rightarrow> error + adjustment list" where
  "long_headline_check adaptive_rules si =
     (case py_contains adaptive_rules ''long_headline'' of
        Inl e \<Rightarrow> Inl e
      | Inr False \<Rightarrow> Inr []
      | Inr True \<Rightarrow>
          (case py_subscript adaptive_rules ''long_headline'' of
             Inl e \<Rightarrow> Inl e
           | Inr rule \<Rightarrow>
               (case parse_trigger rule ''length > 50'' of
                  Inl e \<Rightarrow> Inl e
                | Inr trigger_length \<Rightarrow>
                    if int (length (headline si)) > trigger_length
                    then Inr [\<lparr> adj_rule = ''long_headline'',
                                adj_trigger = ''Headline zu lang ('' @ str_of_int (int (length (headline si)))
                                  @ '' > '' @ str_of_int trigger_length @ '')'',
                                adj_action = rule_action rule ''reduce_font_size'',
                                adj_applied = True \<rparr>]
                    else Inr [])))"

definition many_benefits_check :: "pyval \<Rightarrow> structured_input \<Rightarrow> error + adjustment list" where
  "many_benefits_check adaptive_rules si =
     (case py_contains adaptive_rules ''many_benefits'' of
        Inl e \<Rightarrow> Inl e
      | Inr False \<Rightarrow> Inr []
      | Inr True \<Rightarrow>
          (case py_subscript adaptive_rules ''many_benefits'' of
             Inl e \<Rightarrow> Inl e
           | Inr rule \<Rightarrow>
               (case parse_trigger rule ''count > 5'' of
                  Inl e \<Rightarrow> Inl e
                | Inr trigger_count \<Rightarrow>
                    if int (length (benefits si)) > trigger_count
                    then Inr [\<lparr> adj_rule = ''many_benefits'',
                                adj_trigger = ''Zu viele Benefits ('' @ str_of_int (int (length (benefits si)))
                                  @ '' > '' @ str_of_int trigger_count @ '')'',
                                adj_action = rule_action rule ''truncate_with_ellipsis'',
                                adj_applied = True \<rparr>]
                    else Inr [])))"

definition apply_adaptive_rules ::
  "(string \<times> pyval) list \<Rightarrow> structured_input \<Rightarrow> error + adjustment list" where
  "apply_adaptive_rules layout_def si =
     (let adaptive_rules = dict_get layout_def ''adaptive_rules'' (PDict [])
      in case long_headline_check adaptive_rules si of
           Inl e \<Rightarrow> Inl e
         | Inr adjustments \<Rightarrow>
             (case many_benefits_check adaptive_rules si of
                Inl e \<Rightarrow> Inl e
              | Inr further \<Rightarrow> Inr (adjustments @ further)))"

text \<open>
  A CI colour that cannot rebuild a placeholder: it starts with \<open>#\<close> and holds no
  opening brace, as every hex colour does. \<open>_extract_ci_colors\<close> checks the first
  property but only the length beyond it.
\<close>

definition clean_color :: "string \<Rightarrow> bool" where
  "clean_color c = (startswith c ''#'' \<and> CHR ''{'' \<notin> set c)"

definition clean_palette :: "ci_palette \<Rightarrow> bool" where
  "clean_palette p =
     (clean_color (primary p) \<and> clean_color (secondary p) \<and> clean_color (accent p)
      \<and> clean_color (background p))"

text \<open>
  What makes the four placeholder texts safe against such colours: they are not empty,
  hold no \<open>#\<close>, and start with the opening brace.
\<close>

definition placeholder_like :: "string \<Rightarrow> bool" where
  "placeholder_like X = (X \<noteq> [] \<and> CHR ''#'' \<notin> set X \<and> hd X = CHR ''{'')"

section \<open>PromptFinalizer: the quality score\<close>

text \<open>
  \<open>PromptFinalizer._generate_recommendations\<close> and
  \<open>PromptFinalizer._assess_overall_quality\<close>. Five sub-scores from simple counts, and
  their integer average (\<open>//\<close> is \<open>div\<close>).
\<close>

record quality_assessment =
  overall_score :: int
  layout_integration_score :: int
  text_mapping_score :: int
  midjourney_score :: int
  dalle_score :: int
  adaptive_score :: int
  recommendations :: "string list"

definition generate_recommendations :: "layout_integrated_data \<Rightarrow> int \<Rightarrow> string list" where
  "generate_recommendations layout_data score =
     (if score < 80 then [''Layout-Integration k'' @ [CHR 0xF6] @ ''nnte verbessert werden''] else [])
     @ (if length (text_placements layout_data) < 3
        then [''Mehr Text-Elemente k'' @ [CHR 0xF6] @ ''nnten platziert werden''] else [])
     @ (if adaptive_adjustments layout_data = [] then [''Adaptive Anpassungen implementieren''] else [])
     @ (if score \<ge> 90 then [''Exzellente Prompt-Qualit'' @ [CHR 0xE4] @ ''t erreicht!''] else [])"

definition assess_overall_quality ::
  "layout_integrated_data \<Rightarrow> string \<Rightarrow> string \<Rightarrow> quality_assessment" where
  "assess_overall_quality layout_data mj_prompt dalle_prompt =
     (let layout_score = (if layout_definition layout_data \<noteq> [] then 90 else 50);
          text_score = min 100 (int (length (text_placements layout_data)) * 20);
          mj_score = (if 200 \<le> length mj_prompt \<and> length mj_prompt \<le> 800 then 90 else 70);
          dalle_score = (if length dalle_prompt \<le> 4000 then 95 else 50);
          adaptive_score = (if adaptive_adjustments layout_data \<noteq> [] then 100 else 80);
          scores = [layout_score, text_score, mj_score, dalle_score, adaptive_score];
          overall = sum_list scores div int (length scores)
      in \<lparr> overall_score = overall,
           layout_integration_score = layout_score,
           text_mapping_score = text_score,
           midjourney_score = mj_score,
           dalle_score = dalle_score,
           adaptive_score = adaptive_score,
           recommendations = generate_recommendations layout_data overall \<rparr>)"

section \<open>GPT-4 prompt optimisation\<close>

text \<open>
  \<open>utils.gpt_utils.optimize_prompt_with_gpt4(prompt, system_message)\<close>. The environment
  variable \<open>OPENAI_API_KEY\<close> and the chat-completion call are the outside world: the
  key is an optional string, and \<open>chat system_message prompt\<close> is what
  \<open>openai.ChatCompletion.create\<close> followed by reading the content of the first choice
  gives, an exception or a string. An unset or empty key, and any exception of the call,
  give the prompt back.
\<close>

definition default_system_message :: string where
  "default_system_message =
     ''Du bist ein Experte f'' @ [CHR 0xFC] @ ''r DALL-E 3 Prompt-Optimierung. ''
     @ ''Optimiere den folgenden Prompt f'' @ [CHR 0xFC] @ ''r maximale Bildqualit'' @ [CHR 0xE4] @ ''t, ''
     @ ''aber entferne keine Details und k'' @ [CHR 0xFC] @ ''rze nichts. Erg'' @ [CHR 0xE4]
     @ ''nze nur, was f'' @ [CHR 0xFC] @ ''r DALL-E hilfreich ist ''
     @ ''(z.B. Fotografie-Begriffe, Licht, Stil, Komposition, Aufl'' @ [CHR 0xF6]
     @ ''sung, Kamera, professionelle Begriffe).''"

definition optimize_prompt_with_gpt4 ::
  "string option \<Rightarrow> (string \<Rightarrow> string \<Rightarrow> error + string) \<Rightarrow> string \<Rightarrow> string option \<Rightarrow> string" where
  "optimize_prompt_with_gpt4 api_key chat prompt system_message =
     (case api_key of
        None \<Rightarrow> prompt
      | Some key \<Rightarrow>
          if key = [] then prompt
          else
            let message =
                  (case system_message of
                     None \<Rightarrow> default_system_message
                   | Some m \<Rightarrow> if m = [] then default_system_message else m)
            in case chat message prompt of
                 Inl e \<Rightarrow> prompt
               | Inr content \<Rightarrow> strip content)"

section \<open>The LangGraph quality workflow\<close>

text \<open>
  \<open>QualityWorkflowState\<close>. The clock fields (\<open>start_time\<close>, the time stamps of the
  history entries) are left out. \<open>final_result\<close> is what \<open>to_dict\<close> stores: the prompts
  and the quality assessment read off the \<open>FinalizedPrompts\<close> object, or \<open>None\<close>.
\<close>

record finalized_prompts =
  fp_dalle_prompt :: string
  fp_midjourney_prompt :: string
  fp_quality_assessment :: "quality_assessment option"

record history_entry =
  he_attempt :: int
  he_strategy :: string
  he_score :: int
  he_prompt_length :: "nat option"

record quality_workflow_state =
  streamlit_input :: "(string \<times> pyval) list"
  enable_text_rendering :: bool
  current_attempt :: int
  max_attempts :: int
  target_quality_score :: int
  current_prompt :: "string option"
  original_prompt :: "string option"
  prompt_history :: "history_entry list"
  current_quality_score :: int
  quality_history :: "history_entry list"
  optimization_strategy :: string
  final_result :: "finalized_prompts option"
  workflow_completed :: bool
  success :: bool
  error_message :: "string option"
  workflow_id :: string

text \<open>
  The outside world of the workflow: the API key, the chat call, the factory
  \<open>create_multi_prompt_system()\<close>, and the pipeline \<open>process_streamlit_input\<close> of
  the system it builds, which returns the finalized prompts or raises. The factory is
  called once per generation and once per reassessment and may fail at one call and not
  at another: \<open>create_multi_prompt_system sv k\<close> is the exception it raises, if any,
  when it is called while the attempt counter is \<open>k\<close>. \<open>no_len_text\<close> is the text
  of the \<open>TypeError\<close> that \<open>len(None)\<close> raises, \<open>error_text\<close> the \<open>str(e)\<close> of
  an exception of the services.
\<close>

record services =
  api_key :: "string option"
  chat :: "string \<Rightarrow> string \<Rightarrow> error + string"
  create_multi_prompt_system :: "int \<Rightarrow> error option"
  multi_prompt :: "(string \<times> pyval) list \<Rightarrow> bool \<Rightarrow> error + finalized_prompts"

definition no_len_text :: string where
  "no_len_text = ''object of type '' @ [CHR 0x27] @ ''NoneType'' @ [CHR 0x27] @ '' has no len()''"

definition error_text :: "error \<Rightarrow> string" where
  "error_text e =
     (case e of
        AttributeError \<Rightarrow> ''AttributeError''
      | TypeError \<Rightarrow> ''TypeError''
      | IndexError \<Rightarrow> ''IndexError''
      | ValueError \<Rightarrow> ''ValueError''
      | Exception m \<Rightarrow> m)"

text \<open>
  Every node ends in \<open>state_obj.to_dict()\<close> on a state rebuilt by \<open>from_dict\<close>. There
  \<open>final_result\<close> is already a dictionary, so the \<open>getattr\<close> calls of \<open>to_dict\<close>
  find no attribute and store their fallbacks: empty prompts and an empty assessment.
\<close>

definition to_dict :: "quality_workflow_state \<Rightarrow> quality_workflow_state" where
  "to_dict st =
     st\<lparr> final_result :=
           (case final_result st of
              None \<Rightarrow> None
            | Some r \<Rightarrow> Some \<lparr> fp_dalle_prompt = [], fp_midjourney_prompt = [],
                               fp_quality_assessment = None \<rparr>) \<rparr>"

text \<open>
  \<open>generate_initial_prompt\<close>: the pipeline's DALL-E prompt becomes the current and the
  original prompt, the score is the pipeline's overall score, or the length-based fallback
  when there is no assessment. An exception of the factory or of the pipeline ends the
  workflow.
\<close>

definition generate_initial_prompt :: "services \<Rightarrow> quality_workflow_state \<Rightarrow> quality_workflow_state" where
  "generate_initial_prompt sv st =
     (case (case create_multi_prompt_system sv (current_attempt st) of
              Some e \<Rightarrow> Inl e
            | None \<Rightarrow> multi_prompt sv (streamlit_input st) (enable_text_rendering st)) of
        Inl e \<Rightarrow>
          to_dict (st\<lparr> error_message := Some (''Initial generation failed: '' @ error_text e),
                       success := False,
                       workflow_completed := True \<rparr>)
      | Inr result \<Rightarrow>
          let score =
                (case fp_quality_assessment result of
                   Some q \<Rightarrow> overall_score q
                 | None \<Rightarrow> min 100 (60 + int (length (fp_dalle_prompt result)) div 100))
          in st\<lparr> current_prompt := Some (fp_dalle_prompt result),
                  original_prompt := Some (fp_dalle_prompt result),
                  current_quality_score := score,
                  final_result := Some result,
                  prompt_history := prompt_history st @
                    [\<lparr> he_attempt = current_attempt st, he_strategy = ''initial_generation'',
                       he_score = score, he_prompt_length = Some (length (fp_dalle_prompt result)) \<rparr>],
                  quality_history := quality_history st @
                    [\<lparr> he_attempt = current_attempt st, he_strategy = ''initial_generation'',
                       he_score = score, he_prompt_length = None \<rparr>] \<rparr>)"

text \<open>
  \<open>assess_quality_and_decide\<close>. A score of 0 counts as no score and is replaced by 87.
  Then: target reached, or attempts used up, or the strategy of the score bracket. (The
  \<open>except\<close> branch needs a comparison that raises, which integers never do.)
\<close>

definition choose_strategy :: "int \<Rightarrow> string" where
  "choose_strategy score =
     (if score < 60 then ''critical_optimization''
      else if score < 75 then ''structure_optimization''
      else if score < 85 then ''style_optimization''
      else ''fine_tuning'')"

definition assess_quality_and_decide :: "quality_workflow_state \<Rightarrow> quality_workflow_state" where
  "assess_quality_and_decide st0 =
     (let st = (if current_quality_score st0 = 0 then st0\<lparr> current_quality_score := 87 \<rparr> else st0)
      in if current_quality_score st \<ge> target_quality_score st
         then to_dict (st\<lparr> success := True, workflow_completed := True \<rparr>)
         else if current_attempt st \<ge> max_attempts st
         then to_dict (st\<lparr> success := False, workflow_completed := True \<rparr>)
         else to_dict (st\<lparr> optimization_strategy := choose_strategy (current_quality_score st) \<rparr>))"

text \<open>
  The four optimisation nodes differ in the canned system message, the strategy name they
  record and the label of their error message. Each message is the triple-quoted
  paragraph of the source, character for character: it opens with a line break, every
  line carries the eight blanks of the source's indentation, and the closing line is
  blank.
\<close>

definition critical_system_message :: string where
  "critical_system_message =
     [CHR 0x0A]
     @ ''        Du bist ein Experte f'' @ [CHR 0xFC] @ ''r kritische DALL-E 3 Prompt-Optimierung.'' @ [CHR 0x0A]
     @ ''        Der folgende Prompt hat eine sehr niedrige Qualit'' @ [CHR 0xE4] @ ''t (unter 60/100).'' @ [CHR 0x0A]
     @ ''        '' @ [CHR 0x0A]
     @ ''        KRITISCHE VERBESSERUNGEN:'' @ [CHR 0x0A]
     @ ''        1. Struktur komplett '' @ [CHR 0xFC] @ ''berarbeiten'' @ [CHR 0x0A]
     @ ''        2. Klare, pr'' @ [CHR 0xE4] @ ''zise Anweisungen'' @ [CHR 0x0A]
     @ ''        3. Professionelle Fotografie-Terminologie'' @ [CHR 0x0A]
     @ ''        4. Layout-Struktur vereinfachen'' @ [CHR 0x0A]
     @ ''        5. Negative Prompts optimieren'' @ [CHR 0x0A]
     @ ''        '' @ [CHR 0x0A]
     @ ''        Ziel: Qualit'' @ [CHR 0xE4] @ ''t von unter 60 auf mindestens 75+ verbessern.'' @ [CHR 0x0A]
     @ ''        ''"

definition structure_system_message :: string where
  "structure_system_message =
     [CHR 0x0A]
     @ ''        Du bist ein Experte f'' @ [CHR 0xFC] @ ''r DALL-E 3 Struktur-Optimierung.'' @ [CHR 0x0A]
     @ ''        Der folgende Prompt hat mittlere Qualit'' @ [CHR 0xE4] @ ''t (60-75/100).'' @ [CHR 0x0A]
     @ ''        '' @ [CHR 0x0A]
     @ ''        STRUKTUR-VERBESSERUNGEN:'' @ [CHR 0x0A]
     @ ''        1. Layout-Struktur klarer definieren'' @ [CHR 0x0A]
     @ ''        2. Zonen-Beschreibungen pr'' @ [CHR 0xE4] @ ''zisieren'' @ [CHR 0x0A]
     @ ''        3. Motiv-Integration verbessern'' @ [CHR 0x0A]
     @ ''        4. Corporate Design st'' @ [CHR 0xE4] @ ''rker integrieren'' @ [CHR 0x0A]
     @ ''        5. Komposition optimieren'' @ [CHR 0x0A]
     @ ''        '' @ [CHR 0x0A]
     @ ''        Ziel: Qualit'' @ [CHR 0xE4] @ ''t von 60-75 auf mindestens 80+ verbessern.'' @ [CHR 0x0A]
     @ ''        ''"

definition style_system_message :: string where
  "style_system_message =
     [CHR 0x0A]
     @ ''        Du bist ein Experte f'' @ [CHR 0xFC] @ ''r DALL-E 3 Stil-Optimierung.'' @ [CHR 0x0A]
     @ ''        Der folgende Prompt hat gute Qualit'' @ [CHR 0xE4] @ ''t (75-85/100).'' @ [CHR 0x0A]
     @ ''        '' @ [CHR 0x0A]
     @ ''        STIL-VERBESSERUNGEN:'' @ [CHR 0x0A]
     @ ''        1. Fotografie-Stil verfeinern'' @ [CHR 0x0A]
     @ ''        2. Licht- und Kompositions-Details'' @ [CHR 0x0A]
     @ ''        3. Professionalit'' @ [CHR 0xE4] @ ''t erh'' @ [CHR 0xF6] @ ''hen'' @ [CHR 0x0A]
     @ ''        4. Corporate Branding verst'' @ [CHR 0xE4] @ ''rken'' @ [CHR 0x0A]
     @ ''        5. Emotionale Tonalit'' @ [CHR 0xE4] @ ''t optimieren'' @ [CHR 0x0A]
     @ ''        '' @ [CHR 0x0A]
     @ ''        Ziel: Qualit'' @ [CHR 0xE4] @ ''t von 75-85 auf mindestens 85+ verbessern.'' @ [CHR 0x0A]
     @ ''        ''"

definition fine_tuning_system_message :: string where
  "fine_tuning_system_message =
     [CHR 0x0A]
     @ ''        Du bist ein Experte f'' @ [CHR 0xFC] @ ''r DALL-E 3 Feintuning.'' @ [CHR 0x0A]
     @ ''        Der folgende Prompt hat sehr gute Qualit'' @ [CHR 0xE4] @ ''t (85+).'' @ [CHR 0x0A]
     @ ''        '' @ [CHR 0x0A]
     @ ''        FEINTUNING-VERBESSERUNGEN:'' @ [CHR 0x0A]
     @ ''        1. Letzte Details verfeinern'' @ [CHR 0x0A]
     @ ''        2. Professionalit'' @ [CHR 0xE4] @ ''t maximieren'' @ [CHR 0x0A]
     @ ''        3. Conversion-Optimierung'' @ [CHR 0x0A]
     @ ''        4. Premium-Qualit'' @ [CHR 0xE4] @ ''t erreichen'' @ [CHR 0x0A]
     @ ''        5. Perfektion anstreben'' @ [CHR 0x0A]
     @ ''        '' @ [CHR 0x0A]
     @ ''        Ziel: Qualit'' @ [CHR 0xE4] @ ''t von 85+ auf 90+ verbessern.'' @ [CHR 0x0A]
     @ ''        ''"

text \<open>
  The body shared by \<open>optimize_prompt_critical\<close>, \<open>optimize_prompt_structure\<close>,
  \<open>optimize_prompt_style\<close> and \<open>optimize_prompt_fine_tuning\<close>. With a prompt, GPT-4 is
  asked, the answer becomes the current prompt and the attempt counter goes up by one.
  Without one (\<open>current_prompt\<close> is \<open>None\<close>) the optimiser hands \<open>None\<close> back,
  \<open>len\<close> raises, and the \<open>except\<close> branch returns the incoming state with only an
  error message set.
\<close>

definition optimize_node ::
  "string \<Rightarrow> string \<Rightarrow> string \<Rightarrow> services \<Rightarrow> quality_workflow_state \<Rightarrow> quality_workflow_state" where
  "optimize_node system_message strategy label sv st =
     (case current_prompt st of
        None \<Rightarrow> to_dict (st\<lparr> error_message := Some (label @ '' failed: '' @ no_len_text) \<rparr>)
      | Some prompt \<Rightarrow>
          let optimized = optimize_prompt_with_gpt4 (api_key sv) (chat sv) prompt (Some system_message)
          in to_dict (st\<lparr> current_prompt := Some optimized,
                           current_attempt := current_attempt st + 1,
                           optimization_strategy := strategy \<rparr>))"

definition optimize_prompt_critical :: "services \<Rightarrow> quality_workflow_state \<Rightarrow> quality_workflow_state" where
  "optimize_prompt_critical =
     optimize_node critical_system_message ''critical_optimization'' ''Critical optimization''"

definition optimize_prompt_structure :: "services \<Rightarrow> quality_workflow_state \<Rightarrow> quality_workflow_state" where
  "optimize_prompt_structure =
     optimize_node structure_system_message ''structure_optimization'' ''Structure optimization''"

definition optimize_prompt_style :: "services \<Rightarrow> quality_workflow_state \<Rightarrow> quality_workflow_state" where
  "optimize_prompt_style =
     optimize_node style_system_message ''style_optimization'' ''Style optimization''"

definition optimize_prompt_fine_tuning :: "services \<Rightarrow> quality_workflow_state \<Rightarrow> quality_workflow_state" where
  "optimize_prompt_fine_tuning =
     optimize_node fine_tuning_system_message ''fine_tuning'' ''Fine tuning''"

text \<open>
  \<open>reassess_quality\<close>. It first builds a multi-prompt system; when that raises, the
  outer \<open>except\<close> returns the incoming state with an error message and the score
  stays as it was. The stored \<open>final_result\<close> is a dictionary or \<open>None\<close> and never
  has a \<open>quality_assessment\<close> attribute, so the base score is always the fallback 87,
  plus the bonus of the strategy, capped at 100 (nothing in the inner \<open>try\<close> can
  raise). Without a current prompt the \<open>len\<close> in the history entry raises and, again,
  only the error message is set.
\<close>

definition strategy_bonus :: "string \<Rightarrow> int" where
  "strategy_bonus strategy =
     dict_get [(''critical_optimization'', 5), (''structure_optimization'', 3),
               (''style_optimization'', 2), (''fine_tuning'', 1)] strategy 0"

definition reassess_quality :: "services \<Rightarrow> quality_workflow_state \<Rightarrow> quality_workflow_state" where
  "reassess_quality sv st =
     (case create_multi_prompt_system sv (current_attempt st) of
        Some e \<Rightarrow>
          to_dict (st\<lparr> error_message := Some (''Quality reassessment failed: '' @ error_text e) \<rparr>)
      | None \<Rightarrow>
          (case current_prompt st of
             None \<Rightarrow>
               to_dict (st\<lparr> error_message := Some (''Quality reassessment failed: '' @ no_len_text) \<rparr>)
           | Some prompt \<Rightarrow>
               let new_score = min 100 (87 + strategy_bonus (optimization_strategy st))
               in to_dict (st\<lparr> current_quality_score := new_score,
                                quality_history := quality_history st @
                                  [\<lparr> he_attempt = current_attempt st,
                                     he_strategy = optimization_strategy st,
                                     he_score = new_score,
                                     he_prompt_length = Some (length prompt) \<rparr>] \<rparr>)))"

text \<open>
  The graph of \<open>create_quality_workflow\<close>: its nodes, the conditional edge
  \<open>route_optimization\<close> after the assessment, and the fixed edges.
\<close>

datatype node =
    GenerateInitial
  | AssessQuality
  | OptimizeCritical
  | OptimizeStructure
  | OptimizeStyle
  | OptimizeFineTuning
  | ReassessQuality
  | END

definition route_optimization :: "quality_workflow_state \<Rightarrow> node" where
  "route_optimization st =
     (if workflow_completed st then END
      else if optimization_strategy st = ''critical_optimization'' then OptimizeCritical
      else if optimization_strategy st = ''structure_optimization'' then OptimizeStructure
      else if optimization_strategy st = ''style_optimization'' then OptimizeStyle
      else if optimization_strategy st = ''fine_tuning'' then OptimizeFineTuning
      else END)"

fun run_node :: "services \<Rightarrow> node \<Rightarrow> quality_workflow_state \<Rightarrow> quality_workflow_state" where
  "run_node sv GenerateInitial st = generate_initial_prompt sv st"
| "run_node sv AssessQuality st = assess_quality_and_decide st"
| "run_node sv OptimizeCritical st = optimize_prompt_critical sv st"
| "run_node sv OptimizeStructure st = optimize_prompt_structure sv st"
| "run_node sv OptimizeStyle st = optimize_prompt_style sv st"
| "run_node sv OptimizeFineTuning st = optimize_prompt_fine_tuning sv st"
| "run_node sv ReassessQuality st = reassess_quality sv st"
| "run_node sv END st = st"

fun next_node :: "node \<Rightarrow> quality_workflow_state \<Rightarrow> node" where
  "next_node GenerateInitial st = AssessQuality"
| "next_node AssessQuality st = route_optimization st"
| "next_node OptimizeCritical st = ReassessQuality"
| "next_node OptimizeStructure st = ReassessQuality"
| "next_node OptimizeStyle st = ReassessQuality"
| "next_node OptimizeFineTuning st = ReassessQuality"
| "next_node ReassessQuality st = AssessQuality"
| "next_node END st = END"

text \<open>
  Running the compiled graph: a node is executed on the state, its outgoing edge is
  followed with the state it returned, until \<open>END\<close>. The run may not end, so its value
  is an option; every node executed is recorded, in order, with the state it received.
\<close>

partial_function (option) run_graph ::
  "services \<Rightarrow> node \<Rightarrow> quality_workflow_state \<Rightarrow> (node \<times> quality_workflow_state) list
     \<Rightarrow> (quality_workflow_state \<times> (node \<times> quality_workflow_state) list) option" where
  "run_graph sv n st trace =
     (if n = END then Some (st, trace)
      else run_graph sv (next_node n (run_node sv n st)) (run_node sv n st) (trace @ [(n, st)]))"

declare run_graph.simps [code]

text \<open>
  \<open>run_quality_workflow\<close>: the initial state with the defaults of
  \<open>QualityWorkflowState\<close> (the attempt counter starts at 1), and the run of the graph
  from its entry point.
\<close>

definition initial_state ::
  "string \<Rightarrow> (string \<times> pyval) list \<Rightarrow> bool \<Rightarrow> int \<Rightarrow> int \<Rightarrow> quality_workflow_state" where
  "initial_state wid form text_rendering target attempts =
     \<lparr> streamlit_input = form,
       enable_text_rendering = text_rendering,
       current_attempt = 1,
       max_attempts = attempts,
       target_quality_score = target,
       current_prompt = None,
       original_prompt = None,
       prompt_history = [],
       current_quality_score = 0,
       quality_history = [],
       optimization_strategy = ''initial'',
       final_result = None,
       workflow_completed = False,
       success = False,
       error_message = None,
       workflow_id = wid \<rparr>"

definition run_quality_workflow ::
  "services \<Rightarrow> string \<Rightarrow> (string \<times> pyval) list \<Rightarrow> bool \<Rightarrow> int \<Rightarrow> int
     \<Rightarrow> (quality_workflow_state \<times> (node \<times> quality_workflow_state) list) option" where
  "run_quality_workflow sv wid form text_rendering target attempts =
     run_graph sv GenerateInitial (initial_state wid form text_rendering target attempts) []"

definition assessment_rounds :: "(node \<times> quality_workflow_state) list \<Rightarrow> nat" where
  "assessment_rounds trace = length (filter (\<lambda>entry. fst entry = AssessQuality) trace)"

text \<open>
  The optimisation nodes of the graph, and the number of assessment rounds of a whole
  run of the workflow.
\<close>

definition optimizers :: "node set" where
  "optimizers = {OptimizeCritical, OptimizeStructure, OptimizeStyle, OptimizeFineTuning}"

definition workflow_rounds ::
  "services \<Rightarrow> string \<Rightarrow> (string \<times> pyval) list \<Rightarrow> bool \<Rightarrow> int \<Rightarrow> int \<Rightarrow> nat option" where
  "workflow_rounds sv wid form text_rendering target attempts =
     map_option (assessment_rounds \<circ> snd)
       (run_quality_workflow sv wid form text_rendering target attempts)"

text \<open>
  Two concrete outside worlds for running the workflow on examples. Offline: no API key,
  a chat call that fails, a factory that never fails and a pipeline that returns a short
  prompt without an assessment (so the initial score is the length-based fallback, 60).
  Online: a key, and a chat call that answers with the system message it was sent
  followed by the prompt.
\<close>

definition offline_services :: services where
  "offline_services =
     \<lparr> api_key = None,
       chat = (\<lambda>message prompt. Inl (Exception ''offline'')),
       create_multi_prompt_system = (\<lambda>attempt. None),
       multi_prompt = (\<lambda>form text_rendering.
         Inr \<lparr> fp_dalle_prompt = ''a nurse in a clinic'',
               fp_midjourney_prompt = ''a nurse in a clinic'',
               fp_quality_assessment = None \<rparr>) \<rparr>"

definition echo_services :: services where
  "echo_services =
     offline_services\<lparr> api_key := Some ''sk-test'',
                        chat := (\<lambda>message prompt. Inr (message @ prompt)) \<rparr>"

section \<open>Properties of the InputProcessor\<close>

lemma length_strip_le: "length (strip s) \<le> length s"
  unfolding strip_def
  by (metis length_dropWhile_le length_rev order_trans)

lemma strip_Nil: "strip [] = []"
  by (simp add: strip_def)

text \<open>
  C4. \<open>_normalize_text\<close> caps the length: for a \<open>max_length\<close> of at least 4 the result
  is never longer than \<open>max_length\<close>; a value that is not a string, or the empty string,
  gives the empty string; a string whose stripped form fits is returned stripped; a longer
  one becomes the first \<open>max_length - 3\<close> characters of its stripped form followed by
  three dots, of length exactly \<open>max_length\<close>.
\<close>

theorem normalize_text_caps:
  "4 \<le> max_length \<Longrightarrow>
     int (length (normalize_text text max_length)) \<le> max_length
   \<and> ((\<forall>s. text \<noteq> PStr s) \<or> text = PStr [] \<longrightarrow> normalize_text text max_length = [])
   \<and> (\<forall>s. text = PStr s \<and> s \<noteq> [] \<and> int (length (strip s)) \<le> max_length
          \<longrightarrow> normalize_text text max_length = strip s)
   \<and> (\<forall>s. text = PStr s \<and> int (length (strip s)) > max_length
          \<longrightarrow> normalize_text text max_length = take (nat (max_length - 3)) (strip s) @ ''...''
            \<and> int (length (normalize_text text max_length)) = max_length)"
  by (cases "text") (auto simp: normalize_text_def slice_to_def Let_def min_def strip_Nil)

theorem normalize_text_caps_witness:
  "(4::int) \<le> 8
   \<and> normalize_text (PStr ''  Hello World  '') 8 = ''Hello...''
   \<and> int (length (normalize_text (PStr ''  Hello World  '') 8)) = 8
   \<and> normalize_text (PStr '' Hi '') 8 = ''Hi''
   \<and> normalize_text PNone 8 = []"
  using normalize_text_caps [of 8 "PStr ''  Hello World  ''"]
  by (simp add: normalize_text_def strip_def is_space_def slice_to_def)


lemma ci_color_entry_eq:
  "ci_color_entry colors (key, default_value) =
     (key, case map_of colors key of
             Some (PStr c) \<Rightarrow>
               if startswith c ''#'' \<and> (length c = 4 \<or> length c = 7) then c else default_value
           | _ \<Rightarrow> default_value)"
proof (cases "map_of colors key")
  case None
  then show ?thesis
    by (simp add: ci_color_entry_def dict_get_def valid_color_def startswith_def)
next
  case (Some v)
  then show ?thesis
    by (cases v) (auto simp add: ci_color_entry_def dict_get_def valid_color_def)
qed

lemma map_of_map_entry:
  assumes "\<And>k d. f (k, d) = (k, g k d)"
  shows "map_of (map f xs) key = map_option (g key) (map_of xs key)"
proof (induction xs)
  case Nil
  show ?case by simp
next
  case (Cons e xs)
  obtain k d where e: "e = (k, d)" by (cases e)
  show ?case using Cons by (simp add: e assms)
qed

lemma map_fst_map_entry:
  assumes "\<And>k d. f (k, d) = (k, g k d)"
  shows "map fst (map f xs) = map fst xs"
proof (induction xs)
  case Nil
  show ?case by simp
next
  case (Cons e xs)
  obtain k d where e: "e = (k, d)" by (cases e)
  show ?case using Cons by (simp add: e assms)
qed

lemma distinct_default_keys: "distinct (map fst default_colors)"
  by (simp add: default_colors_def)

text \<open>
  C5. \<open>_extract_ci_colors\<close> returns exactly the five keys primary, secondary, accent,
  background and text; each value is the caller's colour when that is a string starting
  with \<open>#\<close> of length 4 or 7, and the hard-coded default of the key otherwise, also
  when the key is absent.
\<close>

theorem extract_ci_colors_validated:
  "map fst (extract_ci_colors colors) = [''primary'', ''secondary'', ''accent'', ''background'', ''text'']
   \<and> (\<forall>key default_value. (key, default_value) \<in> set default_colors \<longrightarrow>
         map_of (extract_ci_colors colors) key =
           Some (case map_of colors key of
                   Some (PStr c) \<Rightarrow>
                     if startswith c ''#'' \<and> (length c = 4 \<or> length c = 7) then c else default_value
                 | _ \<Rightarrow> default_value))"
proof -
  have "map fst (extract_ci_colors colors) = map fst default_colors"
    unfolding extract_ci_colors_def by (rule map_fst_map_entry) (rule ci_color_entry_eq)
  then have keys: "map fst (extract_ci_colors colors) =
      [''primary'', ''secondary'', ''accent'', ''background'', ''text'']"
    by (simp add: default_colors_def)
  have vals: "map_of (extract_ci_colors colors) key =
           Some (case map_of colors key of
                   Some (PStr c) \<Rightarrow>
                     if startswith c ''#'' \<and> (length c = 4 \<or> length c = 7) then c else default_value
                 | _ \<Rightarrow> default_value)"
    if "(key, default_value) \<in> set default_colors" for key default_value
  proof -
    have "map_of default_colors key = Some default_value"
      using distinct_default_keys that by (rule map_of_is_SomeI)
    moreover have "map_of (extract_ci_colors colors) key =
        map_option (\<lambda>d. case map_of colors key of
                   Some (PStr c) \<Rightarrow>
                     if startswith c ''#'' \<and> (length c = 4 \<or> length c = 7) then c else d
                 | _ \<Rightarrow> d) (map_of default_colors key)"
      unfolding extract_ci_colors_def by (rule map_of_map_entry) (rule ci_color_entry_eq)
    ultimately show ?thesis by simp
  qed
  from keys vals show ?thesis by blast
qed

theorem extract_ci_colors_validated_witness:
  "map fst (extract_ci_colors [(''primary'', PStr ''#123456''), (''accent'', PStr ''red''), (''text'', PInt 7)])
     = [''primary'', ''secondary'', ''accent'', ''background'', ''text'']
   \<and> (''primary'', ''#005EA5'') \<in> set default_colors
   \<and> map_of (extract_ci_colors [(''primary'', PStr ''#123456''), (''accent'', PStr ''red''), (''text'', PInt 7)]) ''primary''
       = Some ''#123456''
   \<and> (''accent'', ''#FFC20E'') \<in> set default_colors
   \<and> map_of (extract_ci_colors [(''primary'', PStr ''#123456''), (''accent'', PStr ''red''), (''text'', PInt 7)]) ''accent''
       = Some ''#FFC20E''"
proof -
  let ?colors = "[(''primary'', PStr ''#123456''), (''accent'', PStr ''red''), (''text'', PInt 7)]"
  note th = extract_ci_colors_validated [of ?colors]
  have p: "(''primary'', ''#005EA5'') \<in> set default_colors"
    by (simp add: default_colors_def)
  have a: "(''accent'', ''#FFC20E'') \<in> set default_colors"
    by (simp add: default_colors_def)
  from th p have "map_of (extract_ci_colors ?colors) ''primary'' =
      Some (case map_of ?colors ''primary'' of
              Some (PStr c) \<Rightarrow>
                if startswith c ''#'' \<and> (length c = 4 \<or> length c = 7) then c else ''#005EA5''
            | _ \<Rightarrow> ''#005EA5'')"
    by blast
  then have vp: "map_of (extract_ci_colors ?colors) ''primary'' = Some ''#123456''"
    by (simp add: startswith_def)
  from th a have "map_of (extract_ci_colors ?colors) ''accent'' =
      Some (case map_of ?colors ''accent'' of
              Some (PStr c) \<Rightarrow>
                if startswith c ''#'' \<and> (length c = 4 \<or> length c = 7) then c else ''#FFC20E''
            | _ \<Rightarrow> ''#FFC20E'')"
    by blast
  then have va: "map_of (extract_ci_colors ?colors) ''accent'' = Some ''#FFC20E''"
    by (simp add: startswith_def)
  from th have k: "map fst (extract_ci_colors ?colors) =
      [''primary'', ''secondary'', ''accent'', ''background'', ''text'']"
    by blast
  from k p vp a va show ?thesis by blast
qed

section \<open>Properties of the adaptive rules\<close>


lemma parse_default_count: "parse_trigger (PDict r) ''count > 5'' = Inr 5" if "map_of r ''trigger'' = None"
proof -
  have "split ''count > 5'' ''> '' = [''count '', ''5'']" by code_simp
  moreover have "py_int ''5'' = Inr 5" by code_simp
  ultimately show ?thesis using that by (simp add: parse_trigger_def dict_get_def)
qed

lemma long_headline_check_dict:
  assumes "map_of rules ''long_headline'' = Some rule"
    and "parse_trigger rule ''length > 50'' = Inr t"
  shows "long_headline_check (PDict rules) si =
     Inr (if int (length (headline si)) > t
          then [\<lparr> adj_rule = ''long_headline'',
                   adj_trigger = ''Headline zu lang ('' @ str_of_int (int (length (headline si)))
                      @ '' > '' @ str_of_int t @ '')'',
                   adj_action = rule_action rule ''reduce_font_size'',
                   adj_applied = True \<rparr>]
          else [])"
  using assms by (simp add: long_headline_check_def py_contains_def py_subscript_def)


lemma long_headline_check_rule:
  "long_headline_check adaptive_rules si = Inr adjs \<Longrightarrow> a \<in> set adjs \<Longrightarrow> adj_rule a = ''long_headline''"
  by (auto simp: long_headline_check_def split: sum.splits bool.splits if_splits)

lemma many_benefits_check_rule:
  "many_benefits_check adaptive_rules si = Inr adjs \<Longrightarrow> a \<in> set adjs \<Longrightarrow> adj_rule a = ''many_benefits''"
  by (auto simp: many_benefits_check_def split: sum.splits bool.splits if_splits)

lemma apply_adaptive_rules_Inr:
  assumes "apply_adaptive_rules layout_def si = Inr adjustments"
  obtains lh mb where
    "long_headline_check (dict_get layout_def ''adaptive_rules'' (PDict [])) si = Inr lh"
    "many_benefits_check (dict_get layout_def ''adaptive_rules'' (PDict [])) si = Inr mb"
    "adjustments = lh @ mb"
  using assms by (auto simp: apply_adaptive_rules_def Let_def split: sum.splits)

lemma filter_long_headline:
  assumes "long_headline_check ar si = Inr lh" "many_benefits_check ar si = Inr mb"
  shows "filter (\<lambda>a. adj_rule a = ''long_headline'') (lh @ mb) = lh"
    and "filter (\<lambda>a. adj_rule a = ''many_benefits'') (lh @ mb) = mb"
proof -
  have l: "\<forall>a \<in> set lh. adj_rule a = ''long_headline''"
    using assms(1) long_headline_check_rule by blast
  have m: "\<forall>a \<in> set mb. adj_rule a = ''many_benefits''"
    using assms(2) many_benefits_check_rule by blast
  have ne: "''long_headline'' \<noteq> ''many_benefits''" by simp
  show "filter (\<lambda>a. adj_rule a = ''long_headline'') (lh @ mb) = lh"
    using l m ne by (simp add: filter_id_conv filter_empty_conv)
  show "filter (\<lambda>a. adj_rule a = ''many_benefits'') (lh @ mb) = mb"
    using l m ne by (simp add: filter_id_conv filter_empty_conv)
qed



lemma length_normalize_text: "3 \<le> max_length \<Longrightarrow> int (length (normalize_text t max_length)) \<le> max_length"
  by (cases t) (auto simp: normalize_text_def slice_to_def Let_def min_def)

lemma parse_length_50:
  assumes "dict_get r ''trigger'' (PStr ''length > 50'') = PStr ''length > 50''"
  shows "parse_trigger (PDict r) ''length > 50'' = Inr 50"
proof -
  have "split ''length > 50'' ''> '' = [''length '', ''50'']" by code_simp
  moreover have "py_int ''50'' = Inr 50" by code_simp
  ultimately show ?thesis using assms by (simp add: parse_trigger_def)
qed

lemma headline_process_input:
  "process_input now ui_fields = Inr si \<Longrightarrow>
     headline si = normalize_text (dict_get ui_fields ''headline'' (PStr [])) 50"
  by (auto simp: process_input_def split: sum.splits)

text \<open>
  C9. For every \<open>StructuredInput\<close> that \<open>InputProcessor.process\<close> produces the headline
  has at most 50 characters, so a \<open>long_headline\<close> rule with the default trigger
  \<open>length > 50\<close> never fires in \<open>_apply_adaptive_rules\<close>.
\<close>

theorem default_long_headline_never_fires:
  assumes "process_input now ui_fields = Inr si"
    and "dict_get layout_def ''adaptive_rules'' (PDict []) = PDict rules"
    and "map_of rules ''long_headline'' = Some (PDict r)"
    and "dict_get r ''trigger'' (PStr ''length > 50'') = PStr ''length > 50''"
    and "apply_adaptive_rules layout_def si = Inr adjustments"
  shows "length (headline si) \<le> 50
    \<and> filter (\<lambda>a. adj_rule a = ''long_headline'') adjustments = []"
proof -
  have len: "int (length (headline si)) \<le> 50"
    using headline_process_input [OF assms(1)] length_normalize_text [of 50] by simp
  from assms(5,2) obtain lh mb where
    lh: "long_headline_check (PDict rules) si = Inr lh" and
    mb: "many_benefits_check (PDict rules) si = Inr mb" and
    adj: "adjustments = lh @ mb"
    by (auto elim: apply_adaptive_rules_Inr)
  have "long_headline_check (PDict rules) si = Inr []"
    using long_headline_check_dict [OF assms(3) parse_length_50 [OF assms(4)], of si] len by simp
  with lh have "lh = []" by simp
  with filter_long_headline(1) [OF lh mb] adj len show ?thesis by simp
qed

theorem default_long_headline_never_fires_witness:
  "process_input ''now'' [(''headline'', PStr ''This headline is much longer than the fifty characters allowed'')]
     = Inr (projr (process_input ''now'' [(''headline'', PStr ''This headline is much longer than the fifty characters allowed'')]))
   \<and> headline (projr (process_input ''now'' [(''headline'', PStr ''This headline is much longer than the fifty characters allowed'')]))
       = ''This headline is much longer than the fifty cha...''
   \<and> dict_get [(''adaptive_rules'', PDict [(''long_headline'', PDict [(''action'', PStr ''shrink'')])])]
        ''adaptive_rules'' (PDict [])
       = PDict [(''long_headline'', PDict [(''action'', PStr ''shrink'')])]
   \<and> apply_adaptive_rules [(''adaptive_rules'', PDict [(''long_headline'', PDict [(''action'', PStr ''shrink'')])])]
        (projr (process_input ''now'' [(''headline'', PStr ''This headline is much longer than the fifty characters allowed'')]))
       = Inr []
   \<and> length (headline (projr (process_input ''now'' [(''headline'', PStr ''This headline is much longer than the fifty characters allowed'')]))) \<le> 50
   \<and> filter (\<lambda>a. adj_rule a = ''long_headline'') ([] :: adjustment list) = []"
proof -
  let ?input = "[(''headline'', PStr ''This headline is much longer than the fifty characters allowed'')]"
  let ?si = "projr (process_input ''now'' ?input)"
  let ?r = "[(''action'', PStr ''shrink'')]"
  let ?rules = "[(''long_headline'', PDict ?r)]"
  let ?layout = "[(''adaptive_rules'', PDict ?rules)]"
  have isr: "\<not> isl (process_input ''now'' ?input)" by code_simp
  then have p: "process_input ''now'' ?input = Inr ?si" by (cases "process_input ''now'' ?input") simp_all
  have h: "headline ?si = ''This headline is much longer than the fifty cha...''" by code_simp
  have get: "dict_get ?layout ''adaptive_rules'' (PDict []) = PDict ?rules" by code_simp
  have key: "map_of ?rules ''long_headline'' = Some (PDict ?r)" by simp
  have trig: "dict_get ?r ''trigger'' (PStr ''length > 50'') = PStr ''length > 50''" by code_simp
  have run: "apply_adaptive_rules ?layout ?si = Inr []" by code_simp
  from default_long_headline_never_fires [OF p get key trig run]
  have "length (headline ?si) \<le> 50 \<and> filter (\<lambda>a. adj_rule a = ''long_headline'') ([] :: adjustment list) = []" .
  with p h get run show ?thesis by blast
qed

section \<open>Properties of the placeholder resolution\<close>

text \<open>
  Replacing by a string that starts with \<open>#\<close>: a text without \<open>#\<close> that is a prefix
  of the result was a prefix before; a text that starts with a character the replacement
  does not hold cannot begin inside an inserted replacement.
\<close>

lemma prefix_replace_from:
  "CHR ''#'' \<notin> set X \<Longrightarrow> new = CHR ''#'' # rest \<Longrightarrow> prefix X (replace_from old new s) \<Longrightarrow> prefix X s"
proof (induction old new s arbitrary: X rule: replace_from.induct)
  case (1 old new)
  then show ?case by simp
next
  case (2 old new c cs)
  show ?case
  proof (cases X)
    case Nil
    then show ?thesis by simp
  next
    case (Cons x X')
    show ?thesis
    proof (cases "prefix old (c # cs) \<and> old \<noteq> []")
      case True
      with "2.prems" Cons show ?thesis by auto
    next
      case False
      with "2.prems" Cons have "x = c" "prefix X' (replace_from old new cs)" "CHR ''#'' \<notin> set X'"
        by auto
      with "2.IH"(2) [OF False, of X'] "2.prems"(2) Cons show ?thesis by simp
    qed
  qed
qed

lemma sublist_skip:
  "X \<noteq> [] \<Longrightarrow> hd X \<notin> set new \<Longrightarrow> sublist X (new @ r) \<Longrightarrow> sublist X r"
proof (induction new)
  case Nil
  then show ?case by simp
next
  case (Cons a new)
  from Cons.prems(3) have "prefix X (a # new @ r) \<or> sublist X (new @ r)"
    by (simp add: sublist_Cons_right)
  moreover have "\<not> prefix X (a # new @ r)"
    using Cons.prems(1,2) by (cases X) auto
  ultimately show ?case using Cons by simp
qed

lemma replace_from_removes:
  assumes "old \<noteq> []" "CHR ''#'' \<notin> set old" "new = CHR ''#'' # rest" "hd old \<notin> set new"
  shows "\<not> sublist old (replace_from old new s)"
  using assms
proof (induction old new s rule: replace_from.induct)
  case (1 old new)
  then show ?case by simp
next
  case (2 old new c cs)
  show ?case
  proof (cases "prefix old (c # cs) \<and> old \<noteq> []")
    case True
    have "\<not> sublist old (replace_from old new (drop (length old - 1) cs))"
      using "2.IH"(1) [OF True] "2.prems" by simp
    then have "\<not> sublist old (new @ replace_from old new (drop (length old - 1) cs))"
      using sublist_skip [OF "2.prems"(1,4)] by blast
    with True show ?thesis by simp
  next
    case False
    have ih: "\<not> sublist old (replace_from old new cs)"
      using "2.IH"(2) [OF False] "2.prems" by simp
    have eq: "replace_from old new (c # cs) = c # replace_from old new cs"
      using False by auto
    have "\<not> prefix old (c # cs)" using False "2.prems"(1) by simp
    then have "\<not> prefix old (replace_from old new (c # cs))"
      using prefix_replace_from [OF "2.prems"(2,3)] by blast
    then have "\<not> prefix old (c # replace_from old new cs)"
      unfolding eq .
    with ih show ?thesis unfolding eq sublist_Cons_right by blast
  qed
qed

lemma sublist_drop_imp: "sublist X (drop n ys) \<Longrightarrow> sublist X ys"
  using sublist_drop [of n ys] by (rule sublist_order.order_trans [rotated])

lemma replace_from_preserves:
  assumes "X \<noteq> []" "CHR ''#'' \<notin> set X" "new = CHR ''#'' # rest" "hd X \<notin> set new"
    and "\<not> sublist X s"
  shows "\<not> sublist X (replace_from old new s)"
  using assms
proof (induction old new s rule: replace_from.induct)
  case (1 old new)
  then show ?case by simp
next
  case (2 old new c cs)
  show ?case
  proof (cases "prefix old (c # cs) \<and> old \<noteq> []")
    case True
    have "\<not> sublist X (drop (length old - 1) cs)"
      using "2.prems"(5) sublist_drop_imp [of X "length old - 1" cs] by (auto simp: sublist_Cons_right)
    then have "\<not> sublist X (replace_from old new (drop (length old - 1) cs))"
      using "2.IH"(1) [OF True] "2.prems" by simp
    then have "\<not> sublist X (new @ replace_from old new (drop (length old - 1) cs))"
      using sublist_skip [OF "2.prems"(1,4)] by blast
    with True show ?thesis by simp
  next
    case False
    have "\<not> sublist X cs" using "2.prems"(5) by (simp add: sublist_Cons_right)
    then have ih: "\<not> sublist X (replace_from old new cs)"
      using "2.IH"(2) [OF False] "2.prems" by simp
    have eq: "replace_from old new (c # cs) = c # replace_from old new cs"
      using False by auto
    have "\<not> prefix X (c # cs)" using "2.prems"(5) by (simp add: sublist_Cons_right)
    then have "\<not> prefix X (replace_from old new (c # cs))"
      using prefix_replace_from [OF "2.prems"(2,3)] by blast
    then have "\<not> prefix X (c # replace_from old new cs)"
      unfolding eq .
    with ih show ?thesis unfolding eq sublist_Cons_right by blast
  qed
qed

lemma placeholders_like:
  "placeholder_like ''{primary_color}''" "placeholder_like ''{secondary_color}''"
  "placeholder_like ''{accent_color}''" "placeholder_like ''{background_color}''"
  by (simp_all add: placeholder_like_def)

lemma clean_colorD:
  assumes "clean_color c"
  obtains rest where "c = CHR ''#'' # rest" "CHR ''{'' \<notin> set c"
  using assms by (cases c) (auto simp: clean_color_def startswith_def)

lemma replace_if_in_removes:
  assumes "clean_color new" "placeholder_like X"
  shows "\<not> sublist X (replace_if_in X new s)"
proof (cases "sublist X s")
  case False
  then show ?thesis by (simp add: replace_if_in_def)
next
  case True
  from assms(1) obtain rest where n: "new = CHR ''#'' # rest" "CHR ''{'' \<notin> set new"
    by (rule clean_colorD)
  from assms(2) have x: "X \<noteq> []" "CHR ''#'' \<notin> set X" "hd X \<notin> set new"
    using n(2) by (simp_all add: placeholder_like_def)
  have "\<not> sublist X (replace_from X new s)"
    using x(1,2) n(1) x(3) by (rule replace_from_removes)
  with True x(1) show ?thesis by (simp add: replace_if_in_def replace_def)
qed

lemma replace_if_in_preserves:
  assumes "clean_color new" "placeholder_like X" "old \<noteq> []" "\<not> sublist X s"
  shows "\<not> sublist X (replace_if_in old new s)"
proof -
  from assms(1) obtain rest where n: "new = CHR ''#'' # rest" "CHR ''{'' \<notin> set new"
    by (rule clean_colorD)
  from assms(2) have x: "X \<noteq> []" "CHR ''#'' \<notin> set X" "hd X \<notin> set new"
    using n(2) by (simp_all add: placeholder_like_def)
  have "\<not> sublist X (replace_from old new s)"
    using x(1,2) n(1) x(3) assms(4) by (rule replace_from_preserves)
  with assms(3,4) show ?thesis by (simp add: replace_if_in_def replace_def)
qed

lemma foldl_replace_preserves:
  assumes "\<forall>on \<in> set m. fst on \<noteq> [] \<and> clean_color (snd on)" "placeholder_like X" "\<not> sublist X s"
  shows "\<not> sublist X (foldl (\<lambda>obj on. replace_if_in (fst on) (snd on) obj) s m)"
  using assms
proof (induction m arbitrary: s)
  case Nil
  then show ?case by simp
next
  case (Cons on m)
  have "\<not> sublist X (replace_if_in (fst on) (snd on) s)"
    using Cons.prems by (intro replace_if_in_preserves) simp_all
  with Cons.IH [of "replace_if_in (fst on) (snd on) s"] Cons.prems show ?case by simp
qed

lemma color_mapping_clean:
  "clean_palette p \<Longrightarrow> \<forall>on \<in> set (color_mapping p). fst on \<noteq> [] \<and> clean_color (snd on)"
  by (simp add: color_mapping_def clean_palette_def)

lemma replace_str_no_placeholder:
  assumes "clean_palette p"
  shows "\<not> has_placeholder (replace_str p obj)"
proof -
  from assms have c: "clean_color (primary p)" "clean_color (secondary p)"
    "clean_color (accent p)" "clean_color (background p)"
    by (simp_all add: clean_palette_def)
  let ?o1 = "replace_if_in ''{primary_color}'' (primary p) obj"
  let ?o2 = "replace_if_in ''{secondary_color}'' (secondary p) ?o1"
  let ?o3 = "replace_if_in ''{accent_color}'' (accent p) ?o2"
  let ?o4 = "replace_if_in ''{background_color}'' (background p) ?o3"
  note pl = placeholders_like
  have p1: "\<not> sublist ''{primary_color}'' ?o1"
    using c(1) pl(1) by (rule replace_if_in_removes)
  have p2: "\<not> sublist ''{primary_color}'' ?o2"
    using c(2) pl(1) _ p1 by (rule replace_if_in_preserves) simp
  have p3: "\<not> sublist ''{primary_color}'' ?o3"
    using c(3) pl(1) _ p2 by (rule replace_if_in_preserves) simp
  have p4: "\<not> sublist ''{primary_color}'' ?o4"
    using c(4) pl(1) _ p3 by (rule replace_if_in_preserves) simp
  have s2: "\<not> sublist ''{secondary_color}'' ?o2"
    using c(2) pl(2) by (rule replace_if_in_removes)
  have s3: "\<not> sublist ''{secondary_color}'' ?o3"
    using c(3) pl(2) _ s2 by (rule replace_if_in_preserves) simp
  have s4: "\<not> sublist ''{secondary_color}'' ?o4"
    using c(4) pl(2) _ s3 by (rule replace_if_in_preserves) simp
  have a3: "\<not> sublist ''{accent_color}'' ?o3"
    using c(3) pl(3) by (rule replace_if_in_removes)
  have a4: "\<not> sublist ''{accent_color}'' ?o4"
    using c(4) pl(3) _ a3 by (rule replace_if_in_preserves) simp
  have b4: "\<not> sublist ''{background_color}'' ?o4"
    using c(4) pl(4) by (rule replace_if_in_removes)
  note m = color_mapping_clean [OF assms]
  have r: "replace_str p obj = foldl (\<lambda>obj on. replace_if_in (fst on) (snd on) obj) ?o4 (color_mapping p)"
    by (simp add: replace_str_def)
  have "\<not> sublist ''{primary_color}'' (replace_str p obj)"
    unfolding r using m pl(1) p4 by (rule foldl_replace_preserves)
  moreover have "\<not> sublist ''{secondary_color}'' (replace_str p obj)"
    unfolding r using m pl(2) s4 by (rule foldl_replace_preserves)
  moreover have "\<not> sublist ''{accent_color}'' (replace_str p obj)"
    unfolding r using m pl(3) a4 by (rule foldl_replace_preserves)
  moreover have "\<not> sublist ''{background_color}'' (replace_str p obj)"
    unfolding r using m pl(4) b4 by (rule foldl_replace_preserves)
  ultimately show ?thesis by (simp add: has_placeholder_def)
qed

lemma resolve_background_no_placeholder:
  "clean_palette p \<Longrightarrow> \<not> has_placeholder (resolve_background p v)"
  unfolding resolve_background_def by (rule replace_str_no_placeholder)

lemma replace_colors_placeholder_free:
  assumes "clean_palette p"
  shows "placeholder_free (replace_colors p v)"
  using assms
proof (induction p v rule: replace_colors.induct)
  case (1 p kvs)
  have "placeholder_free
      (case snd kv of
         PStr v \<Rightarrow>
           if fst kv = ''background_color'' then PStr (resolve_background p v)
           else replace_colors p (snd kv)
       | _ \<Rightarrow> replace_colors p (snd kv))"
    if "kv \<in> set kvs" for kv
  proof (cases "snd kv")
    case (PStr v)
    show ?thesis
    proof (cases "fst kv = ''background_color''")
      case True
      with PStr show ?thesis
        using resolve_background_no_placeholder [OF "1.prems"] by simp
    next
      case False
      with PStr "1.IH" "1.prems" that show ?thesis by simp
    qed
  next
    case PNone
    then show ?thesis by simp
  next
    case (PBool b)
    then show ?thesis by simp
  next
    case (PInt i)
    then show ?thesis by simp
  next
    case (PList xs)
    with "1.IH" "1.prems" that show ?thesis by simp
  next
    case (PDict d)
    with "1.IH" "1.prems" that show ?thesis by simp
  qed
  then show ?case by (simp add: list_all_iff)
next
  case (2 p xs)
  then show ?case by (simp add: list_all_iff)
next
  case (3 p obj)
  then show ?case using replace_str_no_placeholder by simp
qed simp_all

text \<open>
  C6, as amended. After \<open>_convert_banner_colors_to_generic\<close> and
  \<open>_resolve_layout_colors\<close> no string value anywhere in the resulting structure
  (dictionary values, list elements, plain strings, at any depth) contains one of the four
  placeholders, provided each of the four CI colours used (primary, secondary, accent,
  background, with their defaults) starts with \<open>#\<close> and holds no opening brace. For
  arbitrary colours that pass the basic check of \<open>_extract_ci_colors\<close> the claim
  fails: the accent colour \<open>#{prima\<close> turns \<open>{accent_color}ry_color}\<close> into a new
  primary placeholder after the primary placeholder has been dealt with.
\<close>

theorem placeholders_resolved_for_clean_colors:
  "clean_palette (palette_of colors) \<Longrightarrow>
     placeholder_free (resolve_layout_colors (convert_banner_colors_to_generic layout_def) colors)"
  unfolding resolve_layout_colors_def by (rule replace_colors_placeholder_free)

theorem placeholders_resolved_for_clean_colors_witness:
  "clean_palette (palette_of (extract_ci_colors [(''primary'', PStr ''#123456'')]))
   \<and> resolve_layout_colors
        (convert_banner_colors_to_generic
           [(''zones'', PDict [(''header'', PDict [(''background_color'', PStr ''{primary_color}''),
                                                    (''border'', PStr ''1px {accent_color}'')]),
                                (''list'', PList [PStr ''{secondary_color} on {background_color}'', PInt 3])]),
            (''color'', PStr ''{primary_color}'')])
        (extract_ci_colors [(''primary'', PStr ''#123456'')])
       = PDict [(''zones'', PDict [(''header'', PDict [(''background_color'', PStr ''professional light background''),
                                                        (''border'', PStr ''1px #FFC20E'')]),
                                    (''list'', PList [PStr ''professional dark background on #FFFFFF'', PInt 3])]),
                (''color'', PStr ''#123456'')]
   \<and> placeholder_free
        (PDict [(''zones'', PDict [(''header'', PDict [(''background_color'', PStr ''professional light background''),
                                                        (''border'', PStr ''1px #FFC20E'')]),
                                    (''list'', PList [PStr ''professional dark background on #FFFFFF'', PInt 3])]),
                (''color'', PStr ''#123456'')])"
proof -
  let ?colors = "extract_ci_colors [(''primary'', PStr ''#123456'')]"
  let ?layout = "[(''zones'', PDict [(''header'', PDict [(''background_color'', PStr ''{primary_color}''),
                                                    (''border'', PStr ''1px {accent_color}'')]),
                                (''list'', PList [PStr ''{secondary_color} on {background_color}'', PInt 3])]),
            (''color'', PStr ''{primary_color}'')]"
  have c: "clean_palette (palette_of ?colors)" by code_simp
  have r: "resolve_layout_colors (convert_banner_colors_to_generic ?layout) ?colors
       = PDict [(''zones'', PDict [(''header'', PDict [(''background_color'', PStr ''professional light background''),
                                                        (''border'', PStr ''1px #FFC20E'')]),
                                    (''list'', PList [PStr ''professional dark background on #FFFFFF'', PInt 3])]),
                (''color'', PStr ''#123456'')]"
    by code_simp
  from placeholders_resolved_for_clean_colors [OF c, of ?layout]
  have "placeholder_free (resolve_layout_colors (convert_banner_colors_to_generic ?layout) ?colors)" .
  with c r show ?thesis by simp
qed

theorem placeholder_survives_counterexample:
  "extract_ci_colors [(''accent'', PStr ''#{prima'')]
     = [(''primary'', ''#005EA5''), (''secondary'', ''#B4D9F7''), (''accent'', ''#{prima''),
        (''background'', ''#FFFFFF''), (''text'', ''#000000'')]
   \<and> resolve_layout_colors
        (convert_banner_colors_to_generic [(''note'', PStr ''{accent_color}ry_color}'')])
        (extract_ci_colors [(''accent'', PStr ''#{prima'')])
       = PDict [(''note'', PStr ''#{primary_color}'')]
   \<and> \<not> placeholder_free (PDict [(''note'', PStr ''#{primary_color}'')])"
proof -
  have 1: "extract_ci_colors [(''accent'', PStr ''#{prima'')]
     = [(''primary'', ''#005EA5''), (''secondary'', ''#B4D9F7''), (''accent'', ''#{prima''),
        (''background'', ''#FFFFFF''), (''text'', ''#000000'')]"
    by code_simp
  have 2: "resolve_layout_colors
        (convert_banner_colors_to_generic [(''note'', PStr ''{accent_color}ry_color}'')])
        (extract_ci_colors [(''accent'', PStr ''#{prima'')])
       = PDict [(''note'', PStr ''#{primary_color}'')]"
    by code_simp
  have 3: "\<not> placeholder_free (PDict [(''note'', PStr ''#{primary_color}'')])"
    by code_simp
  from 1 2 3 show ?thesis by blast
qed

section \<open>Properties of the quality score\<close>

lemma overall_score_eq:
  "overall_score (assess_overall_quality layout_data mj_prompt dalle_prompt) =
     (layout_integration_score (assess_overall_quality layout_data mj_prompt dalle_prompt)
      + text_mapping_score (assess_overall_quality layout_data mj_prompt dalle_prompt)
      + midjourney_score (assess_overall_quality layout_data mj_prompt dalle_prompt)
      + dalle_score (assess_overall_quality layout_data mj_prompt dalle_prompt)
      + adaptive_score (assess_overall_quality layout_data mj_prompt dalle_prompt)) div 5"
  by (simp add: assess_overall_quality_def Let_def split del: if_split)

lemma layout_score_cases:
  "layout_integration_score (assess_overall_quality layout_data mj_prompt dalle_prompt) \<in> {90, 50}"
  by (simp add: assess_overall_quality_def Let_def)

lemma text_score_cases:
  "text_mapping_score (assess_overall_quality layout_data mj_prompt dalle_prompt) \<in> {0, 20, 40, 60, 80, 100}"
proof -
  have "text_mapping_score (assess_overall_quality layout_data mj_prompt dalle_prompt) =
      min 100 (int (length (text_placements layout_data)) * 20)"
    by (simp add: assess_overall_quality_def Let_def)
  moreover have "min 100 (int n * 20) \<in> {0, 20, 40, 60, 80, 100}" for n :: nat
  proof -
    consider "n = 0" | "n = 1" | "n = 2" | "n = 3" | "n = 4" | "5 \<le> n" by linarith
    then show ?thesis by cases auto
  qed
  ultimately show ?thesis by simp
qed

lemma mj_score_cases:
  "midjourney_score (assess_overall_quality layout_data mj_prompt dalle_prompt) \<in> {90, 70}"
  by (simp add: assess_overall_quality_def Let_def)

lemma dalle_score_cases:
  "dalle_score (assess_overall_quality layout_data mj_prompt dalle_prompt) \<in> {95, 50}"
  by (simp add: assess_overall_quality_def Let_def)

lemma adaptive_score_cases:
  "adaptive_score (assess_overall_quality layout_data mj_prompt dalle_prompt) \<in> {100, 80}"
  by (simp add: assess_overall_quality_def Let_def)

lemma score_sum_bounds:
  "250 \<le> layout_integration_score (assess_overall_quality layout_data mj_prompt dalle_prompt)
      + text_mapping_score (assess_overall_quality layout_data mj_prompt dalle_prompt)
      + midjourney_score (assess_overall_quality layout_data mj_prompt dalle_prompt)
      + dalle_score (assess_overall_quality layout_data mj_prompt dalle_prompt)
      + adaptive_score (assess_overall_quality layout_data mj_prompt dalle_prompt)"
  "layout_integration_score (assess_overall_quality layout_data mj_prompt dalle_prompt)
      + text_mapping_score (assess_overall_quality layout_data mj_prompt dalle_prompt)
      + midjourney_score (assess_overall_quality layout_data mj_prompt dalle_prompt)
      + dalle_score (assess_overall_quality layout_data mj_prompt dalle_prompt)
      + adaptive_score (assess_overall_quality layout_data mj_prompt dalle_prompt) \<le> 475"
proof -
  let ?q = "assess_overall_quality layout_data mj_prompt dalle_prompt"
  have l: "50 \<le> layout_integration_score ?q" "layout_integration_score ?q \<le> 90"
    using layout_score_cases [of layout_data mj_prompt dalle_prompt] by auto
  have t: "0 \<le> text_mapping_score ?q" "text_mapping_score ?q \<le> 100"
    using text_score_cases [of layout_data mj_prompt dalle_prompt] by auto
  have m: "70 \<le> midjourney_score ?q" "midjourney_score ?q \<le> 90"
    using mj_score_cases [of layout_data mj_prompt dalle_prompt] by auto
  have d: "50 \<le> dalle_score ?q" "dalle_score ?q \<le> 95"
    using dalle_score_cases [of layout_data mj_prompt dalle_prompt] by auto
  have a: "80 \<le> adaptive_score ?q" "adaptive_score ?q \<le> 100"
    using adaptive_score_cases [of layout_data mj_prompt dalle_prompt] by auto
  show "250 \<le> layout_integration_score ?q + text_mapping_score ?q + midjourney_score ?q
      + dalle_score ?q + adaptive_score ?q"
    using l t m d a by linarith
  show "layout_integration_score ?q + text_mapping_score ?q + midjourney_score ?q
      + dalle_score ?q + adaptive_score ?q \<le> 475"
    using l t m d a by linarith
qed

text \<open>
  C3. For every layout-integrated input and every pair of Midjourney and DALL-E prompts,
  the overall quality score of \<open>_assess_overall_quality\<close>, the integer average of
  the five sub-scores, is an integer between 0 and 100 inclusive.
\<close>

theorem overall_quality_in_0_100:
  "0 \<le> overall_score (assess_overall_quality layout_data mj_prompt dalle_prompt)
   \<and> overall_score (assess_overall_quality layout_data mj_prompt dalle_prompt) \<le> 100"
  unfolding overall_score_eq
  using score_sum_bounds [of layout_data mj_prompt dalle_prompt] by linarith

text \<open>
  C10. The overall quality score always lies between 50 and 95 inclusive, so it never
  reaches 100 and never falls below 50: the layout score is 90 or 50, the text mapping
  score one of 0, 20, 40, 60, 80, 100, the Midjourney score 90 or 70, the DALL-E score
  95 or 50 and the adaptive score 100 or 80.
\<close>

theorem overall_quality_in_50_95:
  "50 \<le> overall_score (assess_overall_quality layout_data mj_prompt dalle_prompt)
   \<and> overall_score (assess_overall_quality layout_data mj_prompt dalle_prompt) \<le> 95
   \<and> overall_score (assess_overall_quality layout_data mj_prompt dalle_prompt) \<noteq> 100
   \<and> layout_integration_score (assess_overall_quality layout_data mj_prompt dalle_prompt) \<in> {90, 50}
   \<and> text_mapping_score (assess_overall_quality layout_data mj_prompt dalle_prompt) \<in> {0, 20, 40, 60, 80, 100}
   \<and> midjourney_score (assess_overall_quality layout_data mj_prompt dalle_prompt) \<in> {90, 70}
   \<and> dalle_score (assess_overall_quality layout_data mj_prompt dalle_prompt) \<in> {95, 50}
   \<and> adaptive_score (assess_overall_quality layout_data mj_prompt dalle_prompt) \<in> {100, 80}"
proof -
  let ?q = "assess_overall_quality layout_data mj_prompt dalle_prompt"
  have "50 \<le> overall_score ?q" "overall_score ?q \<le> 95"
    unfolding overall_score_eq
    using score_sum_bounds [of layout_data mj_prompt dalle_prompt] by linarith+
  then show ?thesis
    using layout_score_cases [of layout_data mj_prompt dalle_prompt]
      text_score_cases [of layout_data mj_prompt dalle_prompt]
      mj_score_cases [of layout_data mj_prompt dalle_prompt]
      dalle_score_cases [of layout_data mj_prompt dalle_prompt]
      adaptive_score_cases [of layout_data mj_prompt dalle_prompt]
    by simp
qed

section \<open>Properties of the GPT-4 optimiser and the quality workflow\<close>

text \<open>
  C8. If \<open>OPENAI_API_KEY\<close> is unset (or empty), or the chat-completion call raises,
  \<open>optimize_prompt_with_gpt4\<close> returns its input prompt unchanged; it never raises, so
  the caller always receives a prompt string.
\<close>

theorem optimize_prompt_falls_back:
  "(key_opt = None \<or> key_opt = Some [] \<or> (\<exists>e. chat_fn (case msg of None \<Rightarrow> default_system_message
         | Some m \<Rightarrow> if m = [] then default_system_message else m) prompt = Inl e))
   \<longrightarrow> optimize_prompt_with_gpt4 key_opt chat_fn prompt msg = prompt"
  by (auto simp: optimize_prompt_with_gpt4_def Let_def split: option.splits)

theorem optimize_prompt_falls_back_witness:
  "optimize_prompt_with_gpt4 None (\<lambda>m p. Inr ''better'') ''a nurse in a clinic'' None = ''a nurse in a clinic''
   \<and> optimize_prompt_with_gpt4 (Some ''sk-1'') (\<lambda>m p. Inl (Exception ''rate limit'')) ''a nurse in a clinic'' (Some ''sys'')
       = ''a nurse in a clinic''
   \<and> optimize_prompt_with_gpt4 (Some ''sk-1'') (\<lambda>m p. Inr '' better '') ''a nurse in a clinic'' (Some ''sys'')
       = ''better''"
proof -
  have 1: "optimize_prompt_with_gpt4 None (\<lambda>m p. Inr ''better'') ''a nurse in a clinic'' None = ''a nurse in a clinic''"
    using optimize_prompt_falls_back [of None "\<lambda>m p. Inr ''better''" None "''a nurse in a clinic''"] by simp
  have 2: "optimize_prompt_with_gpt4 (Some ''sk-1'') (\<lambda>m p. Inl (Exception ''rate limit'')) ''a nurse in a clinic'' (Some ''sys'')
       = ''a nurse in a clinic''"
    using optimize_prompt_falls_back [of "Some ''sk-1''" "\<lambda>m p. Inl (Exception ''rate limit'')" "Some ''sys''" "''a nurse in a clinic''"]
    by simp
  have 3: "optimize_prompt_with_gpt4 (Some ''sk-1'') (\<lambda>m p. Inr '' better '') ''a nurse in a clinic'' (Some ''sys'')
       = ''better''"
    by (simp add: optimize_prompt_with_gpt4_def strip_def is_space_def)
  from 1 2 3 show ?thesis by blast
qed

lemma run_graph_END: "run_graph sv END st tr = Some (st, tr)"
  by (subst run_graph.simps) simp

lemma run_graph_step:
  "n \<noteq> END \<Longrightarrow>
     run_graph sv n st tr =
       run_graph sv (next_node n (run_node sv n st)) (run_node sv n st) (tr @ [(n, st)])"
  by (subst run_graph.simps) simp

lemma to_dict_fields [simp]:
  "current_attempt (to_dict st) = current_attempt st"
  "max_attempts (to_dict st) = max_attempts st"
  "target_quality_score (to_dict st) = target_quality_score st"
  "current_prompt (to_dict st) = current_prompt st"
  "current_quality_score (to_dict st) = current_quality_score st"
  "optimization_strategy (to_dict st) = optimization_strategy st"
  "workflow_completed (to_dict st) = workflow_completed st"
  "success (to_dict st) = success st"
  by (simp_all add: to_dict_def)

lemma assess_fields:
  "current_attempt (assess_quality_and_decide st) = current_attempt st"
  "max_attempts (assess_quality_and_decide st) = max_attempts st"
  "target_quality_score (assess_quality_and_decide st) = target_quality_score st"
  "current_prompt (assess_quality_and_decide st) = current_prompt st"
  "current_quality_score (assess_quality_and_decide st) =
     (if current_quality_score st = 0 then 87 else current_quality_score st)"
  by (simp_all add: assess_quality_and_decide_def Let_def)

lemma assess_completed:
  "workflow_completed (assess_quality_and_decide st) \<longleftrightarrow>
     workflow_completed st
     \<or> current_quality_score (assess_quality_and_decide st) \<ge> target_quality_score st
     \<or> current_attempt st \<ge> max_attempts st"
  by (simp add: assess_quality_and_decide_def Let_def)

lemma assess_strategy:
  "\<not> workflow_completed (assess_quality_and_decide st) \<Longrightarrow>
     optimization_strategy (assess_quality_and_decide st) =
       choose_strategy (current_quality_score (assess_quality_and_decide st))"
  by (simp add: assess_quality_and_decide_def Let_def split: if_splits)

lemma route_choose_strategy:
  "\<not> workflow_completed st \<Longrightarrow> optimization_strategy st = choose_strategy s \<Longrightarrow>
     route_optimization st =
       (if s < 60 then OptimizeCritical
        else if s < 75 then OptimizeStructure
        else if s < 85 then OptimizeStyle
        else OptimizeFineTuning)"
  by (simp add: route_optimization_def choose_strategy_def)

lemma route_optimizers:
  "\<not> workflow_completed (assess_quality_and_decide st) \<Longrightarrow>
     route_optimization (assess_quality_and_decide st) \<in> optimizers"
  using route_choose_strategy [OF _ assess_strategy, of st]
  by (simp add: optimizers_def)

lemma optimize_node_fields:
  assumes "current_prompt st \<noteq> None"
  shows "current_attempt (optimize_node m s l sv st) = current_attempt st + 1"
    and "max_attempts (optimize_node m s l sv st) = max_attempts st"
    and "current_prompt (optimize_node m s l sv st) \<noteq> None"
    and "workflow_completed (optimize_node m s l sv st) = workflow_completed st"
  using assms by (auto simp: optimize_node_def Let_def)

lemma run_optimizer:
  assumes "n \<in> optimizers" "current_prompt st \<noteq> None"
  shows "current_attempt (run_node sv n st) = current_attempt st + 1"
    and "max_attempts (run_node sv n st) = max_attempts st"
    and "current_prompt (run_node sv n st) \<noteq> None"
    and "next_node n st' = ReassessQuality"
    and "n \<noteq> END"
  using assms optimize_node_fields [OF assms(2)]
  by (auto simp: optimizers_def optimize_prompt_critical_def optimize_prompt_structure_def
      optimize_prompt_style_def optimize_prompt_fine_tuning_def)

lemma reassess_fields:
  "current_attempt (reassess_quality sv st) = current_attempt st"
  "max_attempts (reassess_quality sv st) = max_attempts st"
  "current_prompt (reassess_quality sv st) = current_prompt st"
  by (simp_all add: reassess_quality_def Let_def split: option.split)

lemma assessment_rounds_simps [simp]:
  "assessment_rounds [] = 0"
  "assessment_rounds ((AssessQuality, st) # tr) = Suc (assessment_rounds tr)"
  "n \<noteq> AssessQuality \<Longrightarrow> assessment_rounds ((n, st) # tr) = assessment_rounds tr"
  "assessment_rounds (tr @ tr') = assessment_rounds tr + assessment_rounds tr'"
  by (simp_all add: assessment_rounds_def)

lemma retry_loop_terminates:
  assumes "current_prompt st \<noteq> None \<or> workflow_completed st"
  shows "\<exists>final tr'. run_graph sv AssessQuality st tr = Some (final, tr @ tr')
           \<and> workflow_completed final
           \<and> 1 \<le> assessment_rounds tr'
           \<and> int (assessment_rounds tr') \<le> max 1 (max_attempts st - current_attempt st + 1)
           \<and> (\<forall>entry \<in> set tr'. fst entry \<in> optimizers \<longrightarrow>
                 current_prompt (snd entry) \<noteq> None
                 \<and> current_attempt (run_node sv (fst entry) (snd entry)) = current_attempt (snd entry) + 1)"
  using assms
proof (induction "nat (max_attempts st - current_attempt st)" arbitrary: st tr rule: less_induct)
  case less
  let ?st1 = "assess_quality_and_decide st"
  have step1: "run_graph sv AssessQuality st tr =
      run_graph sv (route_optimization ?st1) ?st1 (tr @ [(AssessQuality, st)])"
    by (simp add: run_graph_step)
  show ?case
  proof (cases "workflow_completed ?st1")
    case True
    then have "route_optimization ?st1 = END" by (simp add: route_optimization_def)
    with step1 have "run_graph sv AssessQuality st tr = Some (?st1, tr @ [(AssessQuality, st)])"
      by (simp add: run_graph_END)
    moreover have "int (assessment_rounds [(AssessQuality, st)])
        \<le> max 1 (max_attempts st - current_attempt st + 1)"
      by simp
    moreover have "1 \<le> assessment_rounds [(AssessQuality, st)]" by simp
    moreover have "(\<forall>entry \<in> set [(AssessQuality, st)]. fst entry \<in> optimizers \<longrightarrow>
                 current_prompt (snd entry) \<noteq> None
                 \<and> current_attempt (run_node sv (fst entry) (snd entry)) = current_attempt (snd entry) + 1)"
      by (simp add: optimizers_def)
    ultimately show ?thesis using True by blast
  next
    case False
    then have nc: "\<not> workflow_completed st" and lt: "current_attempt st < max_attempts st"
      using assess_completed [of st] by auto
    with less.prems have p: "current_prompt ?st1 \<noteq> None" by (simp add: assess_fields)
    let ?n = "route_optimization ?st1"
    have n: "?n \<in> optimizers" using False by (rule route_optimizers)
    let ?st2 = "run_node sv ?n ?st1"
    let ?st3 = "reassess_quality sv ?st2"
    let ?pre = "[(AssessQuality, st), (?n, ?st1), (ReassessQuality, ?st2)]"
    note o = run_optimizer [OF n p]
    have step2: "run_graph sv ?n ?st1 (tr @ [(AssessQuality, st)]) =
        run_graph sv ReassessQuality ?st2 (tr @ [(AssessQuality, st), (?n, ?st1)])"
      using o(4,5) by (simp add: run_graph_step)
    have step3: "run_graph sv ReassessQuality ?st2 (tr @ [(AssessQuality, st), (?n, ?st1)]) =
        run_graph sv AssessQuality ?st3 (tr @ ?pre)"
      by (simp add: run_graph_step)
    have a3: "current_attempt ?st3 = current_attempt st + 1" "max_attempts ?st3 = max_attempts st"
      and p3: "current_prompt ?st3 \<noteq> None"
      using o(1,2,3) by (simp_all add: reassess_fields assess_fields)
    have "nat (max_attempts ?st3 - current_attempt ?st3) < nat (max_attempts st - current_attempt st)"
      using a3 lt by simp
    from less.hyps [OF this, of "tr @ ?pre"] p3
    obtain final tr' where
      r: "run_graph sv AssessQuality ?st3 (tr @ ?pre) = Some (final, (tr @ ?pre) @ tr')" and
      c: "workflow_completed final" and
      b: "int (assessment_rounds tr') \<le> max 1 (max_attempts ?st3 - current_attempt ?st3 + 1)" and
      i: "(\<forall>entry \<in> set tr'. fst entry \<in> optimizers \<longrightarrow>
                 current_prompt (snd entry) \<noteq> None
                 \<and> current_attempt (run_node sv (fst entry) (snd entry)) = current_attempt (snd entry) + 1)"
      by blast
    have nA: "?n \<noteq> AssessQuality" using n by (auto simp: optimizers_def)
    have run: "run_graph sv AssessQuality st tr = Some (final, tr @ (?pre @ tr'))"
      using step1 step2 step3 r by simp
    have upper: "int (assessment_rounds (?pre @ tr')) \<le> max 1 (max_attempts st - current_attempt st + 1)"
      using b a3 lt nA by simp
    have lower: "1 \<le> assessment_rounds (?pre @ tr')" by simp
    have inc: "(\<forall>entry \<in> set (?pre @ tr'). fst entry \<in> optimizers \<longrightarrow>
                 current_prompt (snd entry) \<noteq> None
                 \<and> current_attempt (run_node sv (fst entry) (snd entry)) = current_attempt (snd entry) + 1)"
      using i o(1) p by (auto simp: optimizers_def)
    from run c lower upper inc show ?thesis by blast
  qed
qed

lemma generate_initial_fields:
  "current_attempt (generate_initial_prompt sv st) = current_attempt st"
  "max_attempts (generate_initial_prompt sv st) = max_attempts st"
  "current_prompt (generate_initial_prompt sv st) \<noteq> None \<or> workflow_completed (generate_initial_prompt sv st)"
  by (auto simp: generate_initial_prompt_def Let_def split: sum.split option.split)

lemma workflow_terminates:
  "\<exists>final tr. run_quality_workflow sv wid form text_rendering target attempts = Some (final, tr)
      \<and> workflow_completed final
      \<and> 1 \<le> assessment_rounds tr
      \<and> int (assessment_rounds tr) \<le> max 1 attempts
      \<and> (\<forall>entry \<in> set tr. fst entry \<in> optimizers \<longrightarrow>
                 current_prompt (snd entry) \<noteq> None
                 \<and> current_attempt (run_node sv (fst entry) (snd entry)) = current_attempt (snd entry) + 1)"
proof -
  let ?st0 = "initial_state wid form text_rendering target attempts"
  let ?st1 = "generate_initial_prompt sv ?st0"
  have s: "run_quality_workflow sv wid form text_rendering target attempts =
      run_graph sv AssessQuality ?st1 [(GenerateInitial, ?st0)]"
    by (simp add: run_quality_workflow_def run_graph_step)
  have a: "current_attempt ?st1 = 1" "max_attempts ?st1 = attempts"
    by (simp_all add: generate_initial_fields initial_state_def)
  from retry_loop_terminates [OF generate_initial_fields(3), where tr = "[(GenerateInitial, ?st0)]" and sv = sv]
  obtain final tr' where
    r: "run_graph sv AssessQuality ?st1 [(GenerateInitial, ?st0)]
          = Some (final, [(GenerateInitial, ?st0)] @ tr')" and
    c: "workflow_completed final" and
    l: "1 \<le> assessment_rounds tr'" and
    b: "int (assessment_rounds tr') \<le> max 1 (max_attempts ?st1 - current_attempt ?st1 + 1)" and
    i: "(\<forall>entry \<in> set tr'. fst entry \<in> optimizers \<longrightarrow>
                 current_prompt (snd entry) \<noteq> None
                 \<and> current_attempt (run_node sv (fst entry) (snd entry)) = current_attempt (snd entry) + 1)"
    by blast
  have upper: "int (assessment_rounds ([(GenerateInitial, ?st0)] @ tr')) \<le> max 1 attempts"
    using b a by simp
  have lower: "1 \<le> assessment_rounds ([(GenerateInitial, ?st0)] @ tr')"
    using l by simp
  have inc: "(\<forall>entry \<in> set ([(GenerateInitial, ?st0)] @ tr'). fst entry \<in> optimizers \<longrightarrow>
                 current_prompt (snd entry) \<noteq> None
                 \<and> current_attempt (run_node sv (fst entry) (snd entry)) = current_attempt (snd entry) + 1)"
    using i by (auto simp: optimizers_def)
  show ?thesis
  proof (intro exI conjI)
    show "run_quality_workflow sv wid form text_rendering target attempts
        = Some (final, [(GenerateInitial, ?st0)] @ tr')"
      using s r by simp
    show "workflow_completed final" by (rule c)
    show "1 \<le> assessment_rounds ([(GenerateInitial, ?st0)] @ tr')" by (rule lower)
    show "int (assessment_rounds ([(GenerateInitial, ?st0)] @ tr')) \<le> max 1 attempts" by (rule upper)
    show "(\<forall>entry \<in> set ([(GenerateInitial, ?st0)] @ tr'). fst entry \<in> optimizers \<longrightarrow>
                 current_prompt (snd entry) \<noteq> None
                 \<and> current_attempt (run_node sv (fst entry) (snd entry)) = current_attempt (snd entry) + 1)"
      by (rule inc)
  qed
qed

lemma assess_completes:
  "current_quality_score st \<ge> target_quality_score st \<or> current_attempt st \<ge> max_attempts st
     \<Longrightarrow> workflow_completed (assess_quality_and_decide st)"
  using assess_completed [of st] by (auto simp: assess_fields)

text \<open>
  C1, as amended. \<open>assess_quality_and_decide\<close> marks the workflow completed as soon as
  the score is at least the target or the attempt counter is at least \<open>max_attempts\<close>.
  The workflow terminates for every input, in a completed state; every optimisation node
  executed in the run received a state with a current prompt and returned it with the
  attempt counter incremented by exactly one; and the run performs at least one and at
  most \<open>max 1 max_attempts\<close> assessment rounds. (The bound \<open>max_attempts\<close> of the
  claim fails for \<open>max_attempts = 0\<close>, where the one round still takes place.)
\<close>

theorem quality_workflow_terminates:
  "(\<forall>st. current_quality_score st \<ge> target_quality_score st \<or> current_attempt st \<ge> max_attempts st
        \<longrightarrow> workflow_completed (assess_quality_and_decide st))
   \<and> (\<exists>final tr. run_quality_workflow sv wid form text_rendering target attempts = Some (final, tr)
        \<and> workflow_completed final
        \<and> 1 \<le> assessment_rounds tr
        \<and> int (assessment_rounds tr) \<le> max 1 attempts
        \<and> (\<forall>entry \<in> set tr. fst entry \<in> optimizers \<longrightarrow>
                 current_prompt (snd entry) \<noteq> None
                 \<and> current_attempt (run_node sv (fst entry) (snd entry)) = current_attempt (snd entry) + 1))"
  using assess_completes workflow_terminates [of sv wid form text_rendering target attempts]
  by blast

theorem quality_workflow_terminates_witness:
  "run_quality_workflow offline_services ''w'' [] False 95 3 \<noteq> None
   \<and> map_option (map fst \<circ> snd) (run_quality_workflow offline_services ''w'' [] False 95 3)
       = Some [GenerateInitial, AssessQuality, OptimizeStructure, ReassessQuality,
               AssessQuality, OptimizeFineTuning, ReassessQuality, AssessQuality]
   \<and> workflow_rounds offline_services ''w'' [] False 95 3 = Some 3
   \<and> int 3 \<le> max 1 3
   \<and> workflow_rounds offline_services ''w'' [] False 95 0 = Some 1
   \<and> current_attempt (initial_state ''w'' [] False 95 1) \<ge> max_attempts (initial_state ''w'' [] False 95 1)
   \<and> workflow_completed (assess_quality_and_decide (initial_state ''w'' [] False 95 1))"
proof -
  note th = quality_workflow_terminates [of offline_services "''w''" "[]" False 95 3]
  let ?st1 = "initial_state ''w'' [] False 95 1"
  from th have "\<exists>final tr. run_quality_workflow offline_services ''w'' [] False 95 3 = Some (final, tr)"
    by blast
  then have 1: "run_quality_workflow offline_services ''w'' [] False 95 3 \<noteq> None" by auto
  have 2: "map_option (map fst \<circ> snd) (run_quality_workflow offline_services ''w'' [] False 95 3)
       = Some [GenerateInitial, AssessQuality, OptimizeStructure, ReassessQuality,
               AssessQuality, OptimizeFineTuning, ReassessQuality, AssessQuality]"
    by code_simp
  have 3: "workflow_rounds offline_services ''w'' [] False 95 3 = Some 3" by code_simp
  have 4: "workflow_rounds offline_services ''w'' [] False 95 0 = Some 1" by code_simp
  have 6: "current_attempt ?st1 \<ge> max_attempts ?st1" by (simp add: initial_state_def)
  with th have 7: "workflow_completed (assess_quality_and_decide ?st1)" by blast
  from 1 2 3 4 6 7 show ?thesis by simp
qed

theorem max_attempts_bound_counterexample:
  "workflow_rounds offline_services ''w'' [] False 85 0 = Some 1 \<and> \<not> (int 1 \<le> 0)"
proof -
  have "workflow_rounds offline_services ''w'' [] False 85 0 = Some 1" by code_simp
  then show ?thesis by simp
qed

lemma messages_not_empty:
  "critical_system_message \<noteq> []" "structure_system_message \<noteq> []"
  "style_system_message \<noteq> []" "fine_tuning_system_message \<noteq> []"
  by (simp_all add: critical_system_message_def structure_system_message_def
      style_system_message_def fine_tuning_system_message_def)

lemma distinct_messages:
  "distinct [critical_system_message, structure_system_message, style_system_message,
             fine_tuning_system_message]"
  by (simp add: critical_system_message_def structure_system_message_def style_system_message_def
      fine_tuning_system_message_def)

lemma optimize_node_sends:
  assumes "current_prompt st = Some p" "api_key sv = Some key" "key \<noteq> []" "m \<noteq> []"
  shows "current_prompt (optimize_node m s l sv st) =
           Some (case chat sv m p of Inl e \<Rightarrow> p | Inr content \<Rightarrow> strip content)"
    and "optimization_strategy (optimize_node m s l sv st) = s"
  using assms by (simp_all add: optimize_node_def optimize_prompt_with_gpt4_def Let_def)

text \<open>
  C2, as amended. Whenever \<open>assess_quality_and_decide\<close> leaves the workflow uncompleted,
  the score of the state it returns is below the target and the attempts are below
  \<open>max_attempts\<close>, and the strategy it records is the one of the bracket of that score:
  \<open>critical_optimization\<close> below 60, \<open>structure_optimization\<close> from 60 below 75,
  \<open>style_optimization\<close> from 75 below 85, \<open>fine_tuning\<close> otherwise. That score is the
  stored one, except that a stored score of 0 counts as missing and is replaced by 87
  before the comparisons. \<open>route_optimization\<close> dispatches to the node of the strategy;
  that node, given a current prompt and an API key, sends the prompt to GPT-4 under its
  own canned system message, stores the answer as the current prompt and records its
  strategy; the four messages are distinct. (By the stored score the claim fails: a
  stored 0 is below 60 and yields \<open>fine_tuning\<close>.)
\<close>

theorem strategy_by_score_bracket:
  "(\<not> workflow_completed (assess_quality_and_decide st) \<longrightarrow>
      current_quality_score (assess_quality_and_decide st) < target_quality_score st
      \<and> current_attempt st < max_attempts st
      \<and> (current_quality_score (assess_quality_and_decide st) < 60 \<longrightarrow>
            optimization_strategy (assess_quality_and_decide st) = ''critical_optimization''
            \<and> route_optimization (assess_quality_and_decide st) = OptimizeCritical)
      \<and> (60 \<le> current_quality_score (assess_quality_and_decide st)
          \<and> current_quality_score (assess_quality_and_decide st) < 75 \<longrightarrow>
            optimization_strategy (assess_quality_and_decide st) = ''structure_optimization''
            \<and> route_optimization (assess_quality_and_decide st) = OptimizeStructure)
      \<and> (75 \<le> current_quality_score (assess_quality_and_decide st)
          \<and> current_quality_score (assess_quality_and_decide st) < 85 \<longrightarrow>
            optimization_strategy (assess_quality_and_decide st) = ''style_optimization''
            \<and> route_optimization (assess_quality_and_decide st) = OptimizeStyle)
      \<and> (85 \<le> current_quality_score (assess_quality_and_decide st) \<longrightarrow>
            optimization_strategy (assess_quality_and_decide st) = ''fine_tuning''
            \<and> route_optimization (assess_quality_and_decide st) = OptimizeFineTuning))
   \<and> (\<not> workflow_completed st
        \<and> current_quality_score (assess_quality_and_decide st) < target_quality_score st
        \<and> current_attempt st < max_attempts st
        \<longrightarrow> \<not> workflow_completed (assess_quality_and_decide st))
   \<and> current_quality_score (assess_quality_and_decide st)
        = (if current_quality_score st = 0 then 87 else current_quality_score st)
   \<and> (\<forall>st p key. current_prompt st = Some p \<and> api_key sv = Some key \<and> key \<noteq> [] \<longrightarrow>
          current_prompt (run_node sv OptimizeCritical st) =
               Some (case chat sv critical_system_message p of Inl e \<Rightarrow> p | Inr content \<Rightarrow> strip content)
          \<and> optimization_strategy (run_node sv OptimizeCritical st) = ''critical_optimization''
          \<and> current_prompt (run_node sv OptimizeStructure st) =
               Some (case chat sv structure_system_message p of Inl e \<Rightarrow> p | Inr content \<Rightarrow> strip content)
          \<and> optimization_strategy (run_node sv OptimizeStructure st) = ''structure_optimization''
          \<and> current_prompt (run_node sv OptimizeStyle st) =
               Some (case chat sv style_system_message p of Inl e \<Rightarrow> p | Inr content \<Rightarrow> strip content)
          \<and> optimization_strategy (run_node sv OptimizeStyle st) = ''style_optimization''
          \<and> current_prompt (run_node sv OptimizeFineTuning st) =
               Some (case chat sv fine_tuning_system_message p of Inl e \<Rightarrow> p | Inr content \<Rightarrow> strip content)
          \<and> optimization_strategy (run_node sv OptimizeFineTuning st) = ''fine_tuning'')
   \<and> distinct [critical_system_message, structure_system_message, style_system_message,
                fine_tuning_system_message]"
proof -
  let ?st' = "assess_quality_and_decide st"
  have a: "current_quality_score ?st' < target_quality_score st \<and> current_attempt st < max_attempts st"
    if "\<not> workflow_completed ?st'"
    using that assess_completed [of st] by auto
  have s: "optimization_strategy ?st' = choose_strategy (current_quality_score ?st')"
    if "\<not> workflow_completed ?st'"
    using that by (rule assess_strategy)
  have r: "route_optimization ?st' =
       (if current_quality_score ?st' < 60 then OptimizeCritical
        else if current_quality_score ?st' < 75 then OptimizeStructure
        else if current_quality_score ?st' < 85 then OptimizeStyle
        else OptimizeFineTuning)"
    if "\<not> workflow_completed ?st'"
    using that route_choose_strategy [OF that s [OF that]] by simp
  have 1: "(\<not> workflow_completed (assess_quality_and_decide st) \<longrightarrow>
      current_quality_score (assess_quality_and_decide st) < target_quality_score st
      \<and> current_attempt st < max_attempts st
      \<and> (current_quality_score (assess_quality_and_decide st) < 60 \<longrightarrow>
            optimization_strategy (assess_quality_and_decide st) = ''critical_optimization''
            \<and> route_optimization (assess_quality_and_decide st) = OptimizeCritical)
      \<and> (60 \<le> current_quality_score (assess_quality_and_decide st)
          \<and> current_quality_score (assess_quality_and_decide st) < 75 \<longrightarrow>
            optimization_strategy (assess_quality_and_decide st) = ''structure_optimization''
            \<and> route_optimization (assess_quality_and_decide st) = OptimizeStructure)
      \<and> (75 \<le> current_quality_score (assess_quality_and_decide st)
          \<and> current_quality_score (assess_quality_and_decide st) < 85 \<longrightarrow>
            optimization_strategy (assess_quality_and_decide st) = ''style_optimization''
            \<and> route_optimization (assess_quality_and_decide st) = OptimizeStyle)
      \<and> (85 \<le> current_quality_score (assess_quality_and_decide st) \<longrightarrow>
            optimization_strategy (assess_quality_and_decide st) = ''fine_tuning''
            \<and> route_optimization (assess_quality_and_decide st) = OptimizeFineTuning))"
    using a s r by (simp add: choose_strategy_def)
  have 2: "\<not> workflow_completed st
        \<and> current_quality_score ?st' < target_quality_score st
        \<and> current_attempt st < max_attempts st
        \<longrightarrow> \<not> workflow_completed ?st'"
    using assess_completed [of st] by auto
  have 3: "current_quality_score ?st' = (if current_quality_score st = 0 then 87 else current_quality_score st)"
    by (rule assess_fields)
  have 4: "current_prompt (run_node sv OptimizeCritical t) =
               Some (case chat sv critical_system_message p of Inl e \<Rightarrow> p | Inr content \<Rightarrow> strip content)
          \<and> optimization_strategy (run_node sv OptimizeCritical t) = ''critical_optimization''
          \<and> current_prompt (run_node sv OptimizeStructure t) =
               Some (case chat sv structure_system_message p of Inl e \<Rightarrow> p | Inr content \<Rightarrow> strip content)
          \<and> optimization_strategy (run_node sv OptimizeStructure t) = ''structure_optimization''
          \<and> current_prompt (run_node sv OptimizeStyle t) =
               Some (case chat sv style_system_message p of Inl e \<Rightarrow> p | Inr content \<Rightarrow> strip content)
          \<and> optimization_strategy (run_node sv OptimizeStyle t) = ''style_optimization''
          \<and> current_prompt (run_node sv OptimizeFineTuning t) =
               Some (case chat sv fine_tuning_system_message p of Inl e \<Rightarrow> p | Inr content \<Rightarrow> strip content)
          \<and> optimization_strategy (run_node sv OptimizeFineTuning t) = ''fine_tuning''"
    if "current_prompt t = Some p \<and> api_key sv = Some key \<and> key \<noteq> []" for t p key
  proof -
    from that have h: "current_prompt t = Some p" "api_key sv = Some key" "key \<noteq> []" by simp_all
    show ?thesis
      using optimize_node_sends [OF h messages_not_empty(1)]
        optimize_node_sends [OF h messages_not_empty(2)]
        optimize_node_sends [OF h messages_not_empty(3)]
        optimize_node_sends [OF h messages_not_empty(4)]
      by (simp add: optimize_prompt_critical_def optimize_prompt_structure_def
          optimize_prompt_style_def optimize_prompt_fine_tuning_def)
  qed
  from 1 2 3 4 distinct_messages show ?thesis by blast
qed

theorem strategy_by_score_bracket_witness:
  "\<not> workflow_completed (assess_quality_and_decide
        ((initial_state ''w'' [] False 95 3)\<lparr> current_prompt := Some ''a nurse'', current_quality_score := 70 \<rparr>))
   \<and> current_quality_score (assess_quality_and_decide
        ((initial_state ''w'' [] False 95 3)\<lparr> current_prompt := Some ''a nurse'', current_quality_score := 70 \<rparr>)) = 70
   \<and> optimization_strategy (assess_quality_and_decide
        ((initial_state ''w'' [] False 95 3)\<lparr> current_prompt := Some ''a nurse'', current_quality_score := 70 \<rparr>))
       = ''structure_optimization''
   \<and> route_optimization (assess_quality_and_decide
        ((initial_state ''w'' [] False 95 3)\<lparr> current_prompt := Some ''a nurse'', current_quality_score := 70 \<rparr>))
       = OptimizeStructure
   \<and> current_prompt (assess_quality_and_decide
        ((initial_state ''w'' [] False 95 3)\<lparr> current_prompt := Some ''a nurse'', current_quality_score := 70 \<rparr>))
       = Some ''a nurse''
   \<and> api_key echo_services = Some ''sk-test''
   \<and> current_prompt (run_node echo_services OptimizeStructure (assess_quality_and_decide
        ((initial_state ''w'' [] False 95 3)\<lparr> current_prompt := Some ''a nurse'', current_quality_score := 70 \<rparr>)))
       = Some (strip (structure_system_message @ ''a nurse''))
   \<and> current_quality_score (assess_quality_and_decide
        ((initial_state ''w'' [] False 95 3)\<lparr> current_prompt := Some ''a nurse'' \<rparr>)) = 87"
proof -
  let ?s70 = "(initial_state ''w'' [] False 95 3)\<lparr> current_prompt := Some ''a nurse'', current_quality_score := 70 \<rparr>"
  let ?s0 = "(initial_state ''w'' [] False 95 3)\<lparr> current_prompt := Some ''a nurse'' \<rparr>"
  let ?a70 = "assess_quality_and_decide ?s70"
  have n70: "\<not> workflow_completed ?a70"
    by (simp add: assess_quality_and_decide_def initial_state_def to_dict_def)
  have q70: "current_quality_score ?a70 = 70"
    by (simp add: assess_quality_and_decide_def initial_state_def to_dict_def)
  have p70: "current_prompt ?a70 = Some ''a nurse''"
    by (simp add: assess_quality_and_decide_def initial_state_def to_dict_def)
  have k: "api_key echo_services = Some ''sk-test''"
    by (simp add: echo_services_def offline_services_def)
  have c: "chat echo_services structure_system_message ''a nurse'' = Inr (structure_system_message @ ''a nurse'')"
    by (simp add: echo_services_def offline_services_def)
  have q0: "current_quality_score ?s0 = 0"
    by (simp add: initial_state_def)
  note t70 = strategy_by_score_bracket [of ?s70 echo_services]
  note t0 = strategy_by_score_bracket [of ?s0 echo_services]
  from t0 q0 have q87: "current_quality_score (assess_quality_and_decide ?s0) = 87" by simp
  from t70 n70 q70 have sr:
    "optimization_strategy ?a70 = ''structure_optimization''
     \<and> route_optimization ?a70 = OptimizeStructure"
    by simp
  from t70 have "current_prompt ?a70 = Some ''a nurse'' \<and> api_key echo_services = Some ''sk-test'' \<and> ''sk-test'' \<noteq> []
      \<longrightarrow> current_prompt (run_node echo_services OptimizeStructure ?a70) =
            Some (case chat echo_services structure_system_message ''a nurse'' of
                    Inl e \<Rightarrow> ''a nurse'' | Inr content \<Rightarrow> strip content)"
    by blast
  with p70 k c have sent: "current_prompt (run_node echo_services OptimizeStructure ?a70)
      = Some (strip (structure_system_message @ ''a nurse''))"
    by simp
  from n70 q70 sr p70 k sent q87 show ?thesis by simp
qed

theorem zero_score_strategy_counterexample:
  "current_quality_score ((initial_state ''w'' [] False 95 3)\<lparr> current_prompt := Some ''a nurse'' \<rparr>) = 0
   \<and> target_quality_score ((initial_state ''w'' [] False 95 3)\<lparr> current_prompt := Some ''a nurse'' \<rparr>) = 95
   \<and> current_attempt ((initial_state ''w'' [] False 95 3)\<lparr> current_prompt := Some ''a nurse'' \<rparr>) = 1
   \<and> max_attempts ((initial_state ''w'' [] False 95 3)\<lparr> current_prompt := Some ''a nurse'' \<rparr>) = 3
   \<and> \<not> workflow_completed (assess_quality_and_decide
          ((initial_state ''w'' [] False 95 3)\<lparr> current_prompt := Some ''a nurse'' \<rparr>))
   \<and> optimization_strategy (assess_quality_and_decide
          ((initial_state ''w'' [] False 95 3)\<lparr> current_prompt := Some ''a nurse'' \<rparr>)) = ''fine_tuning''
   \<and> optimization_strategy (assess_quality_and_decide
          ((initial_state ''w'' [] False 95 3)\<lparr> current_prompt := Some ''a nurse'' \<rparr>)) \<noteq> ''critical_optimization''
   \<and> route_optimization (assess_quality_and_decide
          ((initial_state ''w'' [] False 95 3)\<lparr> current_prompt := Some ''a nurse'' \<rparr>)) = OptimizeFineTuning"
  by (simp add: assess_quality_and_decide_def initial_state_def to_dict_def choose_strategy_def
      route_optimization_def)

end
